theory Spec2Isabelle
  imports Main "HOL-Library.Word" "HOL-Library.Sublist"
begin

section \<open>Logging (log.hh, log.cc)\<close>

text \<open>
  The enum \<open>LogLevel\<close> of log.hh; \<open>level_num\<close> is the integer value of each enumerator,
  which is what \<open>msg.level > level_\<close> compares.
\<close>

datatype LogLevel = kError | kWarn | kInfo | kDebug | kTrace

fun level_num :: "LogLevel \<Rightarrow> nat" where
  "level_num kError = 0"
| "level_num kWarn = 1"
| "level_num kInfo = 2"
| "level_num kDebug = 3"
| "level_num kTrace = 4"

record LogMessage =
  level :: LogLevel
  message :: string

text \<open>
  \<open>Sink\<close> is an abstract class; log.cc has one implementation, \<open>ConsoleLogSink\<close>.
  Any other implementation is \<open>OtherSink n\<close>.
\<close>

datatype Sink = ConsoleLogSink | OtherSink nat

text \<open>
  The observable effect of the logger is the sequence of calls it makes: each call of
  \<open>Logger::Emit\<close> and each call of \<open>sink->Emit(msg)\<close> inside it.
\<close>

datatype event = EmitCall LogMessage | SinkEmit Sink LogMessage

record Logger =
  Logger_level :: LogLevel
  Logger_sinks :: "Sink list"

text \<open>\<open>Logger::Logger(LogLevel level) : level_{kInfo} {}\<close>\<close>

definition Logger_ctor :: "LogLevel \<Rightarrow> Logger" where
  "Logger_ctor lvl = \<lparr>Logger_level = kInfo, Logger_sinks = []\<rparr>"

definition AddSink :: "Sink \<Rightarrow> Logger \<Rightarrow> Logger" where
  "AddSink sink lg = lg\<lparr>Logger_sinks := Logger_sinks lg @ [sink]\<rparr>"

definition SetLevel :: "LogLevel \<Rightarrow> Logger \<Rightarrow> Logger" where
  "SetLevel lvl lg = lg\<lparr>Logger_level := lvl\<rparr>"

text \<open>
  \<open>Logger::Get\<close> and \<open>Logger::Default\<close> work on the global \<open>global_logger\<close>
  (a \<open>unique_ptr\<close>, empty at start). Each returns the logger it refers to and the new
  content of the global.
\<close>

definition Logger_Get :: "Logger option \<Rightarrow> Logger \<times> Logger option" where
  "Logger_Get global_logger =
     (case global_logger of
        None \<Rightarrow> (let lg = Logger_ctor kInfo in (lg, Some lg))
      | Some lg \<Rightarrow> (lg, Some lg))"

definition Logger_Default :: "Logger option \<Rightarrow> Logger \<times> Logger option" where
  "Logger_Default global_logger =
     (case global_logger of
        Some lg \<Rightarrow> (lg, Some lg)
      | None \<Rightarrow> (let lg = AddSink ConsoleLogSink (Logger_ctor kInfo) in (lg, Some lg)))"

text \<open>\<open>Logger::Emit\<close>: return early when the message is above the filter, else every sink.\<close>

definition Logger_Emit :: "Logger \<Rightarrow> LogMessage \<Rightarrow> event list \<Rightarrow> event list" where
  "Logger_Emit lg msg tr =
     (if level_num (level msg) > level_num (Logger_level lg) then tr @ [EmitCall msg]
      else tr @ [EmitCall msg] @ map (\<lambda>sink. SinkEmit sink msg) (Logger_sinks lg))"

text \<open>
  The handle \<open>LogAs\<close>. Its \<open>logger_\<close> member is a reference to the global logger; the
  destructor below takes that logger as an argument.
\<close>

record LogAs =
  LogAs_level :: LogLevel
  LogAs_stream :: string
  LogAs_consumed_flag :: bool

definition NewStream :: "LogLevel \<Rightarrow> LogAs" where
  "NewStream lvl = \<lparr>LogAs_level = lvl, LogAs_stream = [], LogAs_consumed_flag = False\<rparr>"

definition operator_bool :: "LogAs \<Rightarrow> bool \<times> LogAs" where
  "operator_bool h = (LogAs_consumed_flag h, h\<lparr>LogAs_consumed_flag := True\<rparr>)"

definition Stream_write :: "string \<Rightarrow> LogAs \<Rightarrow> LogAs" where
  "Stream_write txt h = h\<lparr>LogAs_stream := LogAs_stream h @ txt\<rparr>"

definition LogAs_dtor :: "Logger \<Rightarrow> LogAs \<Rightarrow> event list \<Rightarrow> event list" where
  "LogAs_dtor lg h tr =
     (if LogAs_consumed_flag h
      then Logger_Emit lg \<lparr>level = LogAs_level h, message = LogAs_stream h\<rparr> tr
      else tr)"

text \<open>
  The loop of the macro \<open>LOG\<close>: \<open>for (init; !log_handle;) log_handle.Stream() << txt\<close>.
  The counter is the number of times the body has run.
\<close>

function LOG_loop :: "string \<Rightarrow> LogAs \<Rightarrow> nat \<Rightarrow> LogAs \<times> nat" where
  "LOG_loop txt h n =
     (case operator_bool h of
        (is_consumed, h') \<Rightarrow>
          if \<not> is_consumed then LOG_loop txt (Stream_write txt h') (Suc n) else (h', n))"
  by pat_completeness auto
termination
  by (relation "measure (\<lambda>(txt, h, n). if LogAs_consumed_flag h then 0 else 1)")
     (auto simp: operator_bool_def Stream_write_def)

declare LOG_loop.simps [simp del]

text \<open>
  One use of \<open>LOG(lvl) << txt\<close>: the handle is made from \<open>Logger::Get()\<close>, the loop runs,
  and the handle is destroyed when the statement ends.
\<close>

definition LOG :: "LogLevel \<Rightarrow> string \<Rightarrow> Logger option \<times> event list
    \<Rightarrow> (Logger option \<times> event list) \<times> nat" where
  "LOG lvl txt st =
     (case Logger_Get (fst st) of
        (lg, g') \<Rightarrow>
          (case LOG_loop txt (NewStream lvl) 0 of
             (h, n) \<Rightarrow> ((g', LogAs_dtor lg h (snd st)), n)))"

text \<open>Calls on a logger, to state what holds "until SetLevel is called".\<close>

datatype logger_op = OpAddSink Sink | OpSetLevel LogLevel | OpEmit LogMessage

fun is_SetLevel :: "logger_op \<Rightarrow> bool" where
  "is_SetLevel (OpSetLevel lvl) = True"
| "is_SetLevel (OpAddSink s) = False"
| "is_SetLevel (OpEmit m) = False"

fun run_op :: "logger_op \<Rightarrow> Logger \<times> event list \<Rightarrow> Logger \<times> event list" where
  "run_op (OpAddSink s) (lg, tr) = (AddSink s lg, tr)"
| "run_op (OpSetLevel lvl) (lg, tr) = (SetLevel lvl lg, tr)"
| "run_op (OpEmit m) (lg, tr) = (lg, Logger_Emit lg m tr)"

fun run_ops :: "logger_op list \<Rightarrow> Logger \<times> event list \<Rightarrow> Logger \<times> event list" where
  "run_ops [] st = st"
| "run_ops (op # ops) st = run_ops ops (run_op op st)"

fun delivered_above_info :: "event \<Rightarrow> bool" where
  "delivered_above_info (SinkEmit s m) = (level m = kDebug \<or> level m = kTrace)"
| "delivered_above_info (EmitCall m) = False"

fun is_EmitCall :: "event \<Rightarrow> bool" where
  "is_EmitCall (EmitCall m) = True"
| "is_EmitCall (SinkEmit s m) = False"

section \<open>Rows and entries of the layout scraper (struct_layout_scraper.cc)\<close>

text \<open>
  The header that declares the row types is not among the sources. The fields are the
  ones the code reads and writes; identifiers, sizes and offsets are \<open>uint64_t\<close>, optional
  columns are \<open>std::optional\<close>. Field names carry the row's prefix (\<open>st\<close>, \<open>sm\<close>, \<open>mb\<close>).
\<close>

type_synonym u64 = "64 word"

type_synonym flags = "32 word"

record StructTypeRow =
  st_id :: u64
  st_file :: string
  st_line :: u64
  st_name :: string
  st_size :: u64
  st_flags :: flags
  st_has_imprecise :: bool

record StructMemberRow =
  sm_id :: u64
  sm_owner :: u64
  sm_nested :: "u64 option"
  sm_name :: string
  sm_type_name :: string
  sm_line :: u64
  sm_byte_size :: u64
  sm_bit_size :: "u64 option"
  sm_byte_offset :: u64
  sm_bit_offset :: "u64 option"
  sm_flags :: flags
  sm_array_items :: "u64 option"

record MemberBoundsRow =
  mb_owner :: u64
  mb_member :: u64
  mb_offset :: u64
  mb_name :: string
  mb_base :: u64
  mb_top :: u64
  mb_is_imprecise :: bool
  mb_required_precision :: u64

record StructTypeEntry =
  data :: StructTypeRow
  members :: "StructMemberRow list"
  flattened_layout :: "MemberBoundsRow list"
  skip_postprocess :: bool

text \<open>
  What the scraper uses of \<open>DwarfSource\<close> (\<open>dwsrc_\<close>), which is not among the sources:
  the two functions of the capability encoder and the byte order of the target.
\<close>

record DwarfSource =
  FindRepresentableRange :: "u64 \<Rightarrow> u64 \<Rightarrow> u64 \<times> u64"
  FindRequiredPrecision :: "u64 \<Rightarrow> u64 \<Rightarrow> u64"
  isLittleEndian :: bool

text \<open>
  Errors: \<open>std::runtime_error\<close> with its message, a failed \<open>assert\<close> with its message,
  \<open>std::out_of_range\<close> from \<open>std::string::substr\<close>, and
  \<open>std::filesystem::filesystem_error\<close> from \<open>std::filesystem::relative\<close>.
\<close>

datatype error = RuntimeError string | AssertFailed string | OutOfRange | FilesystemError

section \<open>FindSubobjectCapabilities\<close>

text \<open>\<open>uint64_t req_length = m.byte_size + (m.bit_size ? 1 : 0)\<close>, with \<open>m.bit_size\<close> a
  \<open>std::optional\<close>: the condition is whether it holds a value.\<close>

definition req_length :: "StructMemberRow \<Rightarrow> u64" where
  "req_length m = sm_byte_size m + (if sm_bit_size m \<noteq> None then 1 else 0)"

text \<open>The row \<open>mb_row\<close> that the loop body fills for member \<open>m\<close> (lines 634 to 646).\<close>

definition mb_row :: "DwarfSource \<Rightarrow> u64 \<Rightarrow> StructMemberRow \<Rightarrow> u64 \<Rightarrow> string
    \<Rightarrow> MemberBoundsRow" where
  "mb_row dwsrc owner m offset pfx =
     (let row_offset = offset + sm_byte_offset m in
      case FindRepresentableRange dwsrc row_offset (req_length m) of
        (base, len) \<Rightarrow>
          \<lparr>mb_owner = owner,
           mb_member = sm_id m,
           mb_offset = row_offset,
           mb_name = pfx @ ''::'' @ sm_name m,
           mb_base = base,
           mb_top = base + len,
           mb_is_imprecise = (row_offset \<noteq> base \<or> len \<noteq> req_length m),
           mb_required_precision = FindRequiredPrecision dwsrc row_offset (req_length m)\<rparr>)"

text \<open>
  \<open>if (mb_row.is_imprecise) { entry.data.has_imprecise; }\<close>: the statement reads the field
  and drops the value, so the entry is the same on both branches.
\<close>

definition mark_imprecise :: "MemberBoundsRow \<Rightarrow> StructTypeEntry \<Rightarrow> StructTypeEntry" where
  "mark_imprecise row entry = (if mb_is_imprecise row then entry else entry)"

definition push_back :: "MemberBoundsRow \<Rightarrow> StructTypeEntry \<Rightarrow> StructTypeEntry" where
  "push_back row entry = entry\<lparr>flattened_layout := flattened_layout entry @ [row]\<rparr>"

text \<open>\<open>std::string::substr(pos)\<close> throws when \<open>pos\<close> is beyond the end of the string.\<close>

definition substr :: "string \<Rightarrow> nat \<Rightarrow> string option" where
  "substr s pos = (if pos > length s then None else Some (drop pos s))"

text \<open>
  The merge loop (lines 660 to 666). \<open>auto flat_curr = entry.flattened_layout.back()\<close> is a
  copy of the row just pushed: the new offset and name go to the copy, which ends with
  the iteration, and the pushed row keeps the nested row's values.
\<close>

fun merge_nested :: "MemberBoundsRow list \<Rightarrow> u64 \<Rightarrow> string \<Rightarrow> string \<Rightarrow> StructTypeEntry
    \<Rightarrow> error + StructTypeEntry" where
  "merge_nested [] offset pfx nested_name entry = Inr entry"
| "merge_nested (flat_nested # rest) offset pfx nested_name entry =
     (let entry1 = push_back flat_nested entry;
          flat_curr = last (flattened_layout entry1)
      in case substr (mb_name flat_curr) (length nested_name) of
           None \<Rightarrow> Inl OutOfRange
         | Some tail_name \<Rightarrow>
             (let flat_curr1 = flat_curr\<lparr>mb_offset := mb_offset flat_curr + offset,
                                        mb_name := pfx @ tail_name\<rparr>
              in merge_nested rest offset pfx nested_name entry1))"

text \<open>
  The recursive lambda \<open>FlattenedLayout(curr, offset, prefix)\<close> (\<open>pfx\<close> below), as a loop over
  \<open>curr.members\<close>. It captures \<open>entry\<close>, the argument of \<open>FindSubobjectCapabilities\<close>,
  by reference and writes every row there; \<open>entry_by_id\<close> is only read. \<open>EndUnit\<close> passes
  as \<open>entry\<close> the copy made by \<open>for (auto p : struct_type_map_)\<close>, so \<open>entry\<close> is no
  object of \<open>entry_by_id\<close>. The recursion follows \<open>nested\<close> ids and need not end when they
  form a cycle: \<open>fuel\<close> bounds its depth and \<open>None\<close> means it did not return.
\<close>

fun FlattenedLayout :: "nat \<Rightarrow> DwarfSource \<Rightarrow> (u64 \<times> StructTypeEntry) list
    \<Rightarrow> StructMemberRow list \<Rightarrow> u64 \<Rightarrow> string \<Rightarrow> StructTypeEntry
    \<Rightarrow> (error + StructTypeEntry) option" where
  "FlattenedLayout fuel dwsrc entry_by_id [] offset pfx entry = Some (Inr entry)"
| "FlattenedLayout fuel dwsrc entry_by_id (m # ms) offset pfx entry =
     (let row = mb_row dwsrc (st_id (data entry)) m offset pfx;
          entry0 = mark_imprecise row entry
      in case sm_nested m of
           None \<Rightarrow>
             FlattenedLayout fuel dwsrc entry_by_id ms offset pfx (push_back row entry0)
         | Some nid \<Rightarrow>
             if nid = 0 then Some (Inl (AssertFailed ''Missing member nested ID''))
             else
               (case map_of entry_by_id nid of
                  None \<Rightarrow> Some (Inl (AssertFailed ''Entry is not in the compilation unit?''))
                | Some nested \<Rightarrow>
                    (case (if flattened_layout nested = []
                           then (case fuel of
                                   0 \<Rightarrow> None
                                 | Suc fuel1 \<Rightarrow>
                                     FlattenedLayout fuel1 dwsrc entry_by_id (members nested) 0
                                       (st_name (data nested)) entry0)
                           else Some (Inr entry0)) of
                       None \<Rightarrow> None
                     | Some (Inl e) \<Rightarrow> Some (Inl e)
                     | Some (Inr entry1) \<Rightarrow>
                         (case merge_nested (flattened_layout nested) offset pfx
                                 (st_name (data nested)) entry1 of
                            Inl e \<Rightarrow> Some (Inl e)
                          | Inr entry2 \<Rightarrow>
                              FlattenedLayout fuel dwsrc entry_by_id ms offset pfx
                                (push_back row entry2)))))"

definition FindSubobjectCapabilities :: "nat \<Rightarrow> DwarfSource \<Rightarrow> (u64 \<times> StructTypeEntry) list
    \<Rightarrow> StructTypeEntry \<Rightarrow> (error + StructTypeEntry) option" where
  "FindSubobjectCapabilities fuel dwsrc entry_by_id entry =
     (if flattened_layout entry \<noteq> [] then Some (Inr entry)
      else FlattenedLayout fuel dwsrc entry_by_id (members entry) 0 (st_name (data entry)) entry)"

section \<open>The alias query (InitSchema, EndUnit)\<close>

text \<open>
  Rows of the tables \<open>member_bounds\<close> and \<open>struct_member\<close> as the schema declares them
  (\<open>mbt\<close>, \<open>smt\<close> prefix the column names). An SQL \<open>INTEGER\<close> is an \<open>int\<close> here, a
  nullable column an \<open>option\<close>.
\<close>

record member_bounds_row =
  mbt_id :: int
  mbt_owner :: int
  mbt_name :: string
  mbt_member :: int
  mbt_offset :: int
  mbt_base :: int
  mbt_top :: int
  mbt_is_imprecise :: bool
  mbt_precision :: "int option"

record struct_member_row =
  smt_id :: int
  smt_owner :: int
  smt_nested :: "int option"
  smt_name :: string
  smt_type_name :: string
  smt_line :: int
  smt_size :: int
  smt_bit_size :: "int option"
  smt_offset :: int
  smt_bit_offset :: "int option"
  smt_flags :: int
  smt_array_items :: "int option"

text \<open>
  The operator \<open>LIKE\<close> of SQLite, the engine behind the storage manager. It reads both
  texts as UTF-8 the way the engine's \<open>sqlite3Utf8Read\<close> does: a byte below \<open>0xC0\<close> is a
  character by itself; a byte from \<open>0xC0\<close> on starts a character that takes every
  continuation byte (\<open>0x80\<close> to \<open>0xBF\<close>) that follows, its value built in 32 bits from the
  table \<open>sqlite3Utf8Trans1\<close>, and a value below \<open>0x80\<close>, a surrogate, \<open>0xFFFE\<close> or
  \<open>0xFFFF\<close> becomes \<open>0xFFFD\<close>. A text ends at its first NUL.
\<close>

type_synonym u32 = "32 word"

definition sqlite3Utf8Trans1 :: "u32 list" where
  "sqlite3Utf8Trans1 =
     [0x00, 0x01, 0x02, 0x03, 0x04, 0x05, 0x06, 0x07,
      0x08, 0x09, 0x0a, 0x0b, 0x0c, 0x0d, 0x0e, 0x0f,
      0x10, 0x11, 0x12, 0x13, 0x14, 0x15, 0x16, 0x17,
      0x18, 0x19, 0x1a, 0x1b, 0x1c, 0x1d, 0x1e, 0x1f,
      0x00, 0x01, 0x02, 0x03, 0x04, 0x05, 0x06, 0x07,
      0x08, 0x09, 0x0a, 0x0b, 0x0c, 0x0d, 0x0e, 0x0f,
      0x00, 0x01, 0x02, 0x03, 0x04, 0x05, 0x06, 0x07,
      0x00, 0x01, 0x02, 0x03, 0x00, 0x01, 0x00, 0x00]"

definition byte_of :: "char \<Rightarrow> nat" where
  "byte_of c = of_char c"

definition is_continuation :: "char \<Rightarrow> bool" where
  "is_continuation c = (byte_of c div 64 = 2)"

fun utf8_value :: "u32 \<Rightarrow> string \<Rightarrow> u32" where
  "utf8_value c [] = c"
| "utf8_value c (b # bs) = utf8_value (push_bit 6 c + of_nat (byte_of b mod 64)) bs"

definition utf8_replace :: "u32 \<Rightarrow> u32" where
  "utf8_replace c =
     (if c < 0x80 \<or> and c 0xFFFFF800 = 0xD800 \<or> and c 0xFFFFFFFE = 0xFFFE
      then 0xFFFD else c)"

function utf8_chars :: "string \<Rightarrow> u32 list" where
  "utf8_chars [] = []"
| "utf8_chars (b # bs) =
     (if byte_of b < 0xC0 then of_nat (byte_of b) # utf8_chars bs
      else utf8_replace
             (utf8_value (sqlite3Utf8Trans1 ! (byte_of b - 0xC0)) (takeWhile is_continuation bs))
           # utf8_chars (dropWhile is_continuation bs))"
  by pat_completeness auto
termination
  by (relation "measure length") (auto simp: length_dropWhile_le less_Suc_eq_le)

definition sql_text :: "string \<Rightarrow> u32 list" where
  "sql_text s = takeWhile (\<lambda>c. c \<noteq> 0) (utf8_chars s)"

text \<open>
  The comparison itself (\<open>patternCompare\<close> of the engine, as \<open>LIKE\<close> sets it up: no escape
  character, case folded): \<open>%\<close> stands for any run of characters, \<open>_\<close> for any one
  character, and any other character for itself, where two characters below \<open>0x80\<close> also
  match when they differ only in case.
\<close>

definition sqlite3Tolower :: "u32 \<Rightarrow> u32" where
  "sqlite3Tolower c = (if 0x41 \<le> c \<and> c \<le> 0x5A then c + 0x20 else c)"

fun patternCompare :: "u32 list \<Rightarrow> u32 list \<Rightarrow> bool" where
  "patternCompare [] zString = (zString = [])"
| "patternCompare (c # zPattern) [] = (c = 0x25 \<and> patternCompare zPattern [])"
| "patternCompare (c # zPattern) (c2 # zString) =
     (if c = 0x25
      then patternCompare zPattern (c2 # zString) \<or> patternCompare (c # zPattern) zString
      else (c = c2
            \<or> (sqlite3Tolower c = sqlite3Tolower c2 \<and> c < 0x80 \<and> c2 < 0x80)
            \<or> c = 0x5F)
           \<and> patternCompare zPattern zString)"

text \<open>
  \<open>text LIKE pattern\<close>. The engine refuses a pattern longer than 50000 bytes and the
  statement fails, inserting nothing; the comparison below also answers for such
  patterns, so the pairs of the query below include every pair the engine inserts.
\<close>

definition sql_like :: "string \<Rightarrow> string \<Rightarrow> bool" where
  "sql_like pattern txt = patternCompare (sql_text pattern) (sql_text txt)"

text \<open>\<open>IIF(alm.bit_size, 1, 0)\<close>: NULL and 0 are false.\<close>

definition IIF_bit_size :: "int option \<Rightarrow> int" where
  "IIF_bit_size b = (case b of None \<Rightarrow> 0 | Some v \<Rightarrow> if v \<noteq> 0 then 1 else 0)"

text \<open>One row of the common table expression \<open>impl\<close> of the view \<open>alias_bounds\<close>.\<close>

record impl_row =
  impl_owner :: int
  impl_id :: int
  impl_alias_id :: int
  impl_name :: string
  impl_alias_name :: string
  impl_base :: int
  impl_check_base :: int
  impl_top :: int
  impl_check_top :: int

definition impl :: "member_bounds_row list \<Rightarrow> struct_member_row list \<Rightarrow> impl_row list" where
  "impl member_bounds struct_member =
     concat (map (\<lambda>alb.
       concat (map (\<lambda>alm.
         map (\<lambda>mb.
           \<lparr>impl_owner = mbt_owner mb,
            impl_id = mbt_id mb,
            impl_alias_id = mbt_id alb,
            impl_name = mbt_name mb,
            impl_alias_name = mbt_name alb,
            impl_base = mbt_base mb,
            impl_check_base = mbt_offset alb,
            impl_top = mbt_top mb,
            impl_check_top = mbt_offset alb + smt_size alm + IIF_bit_size (smt_bit_size alm)\<rparr>)
           (filter (\<lambda>mb. mbt_owner mb = mbt_owner alb \<and> mbt_id mb \<noteq> mbt_id alb)
              member_bounds))
         (filter (\<lambda>alm. mbt_member alb = smt_id alm) struct_member)))
       member_bounds)"

text \<open>The view \<open>alias_bounds\<close>: columns \<open>owner\<close>, \<open>subobj_id\<close>, \<open>alias_id\<close>.\<close>

definition alias_bounds :: "member_bounds_row list \<Rightarrow> struct_member_row list
    \<Rightarrow> (int \<times> int \<times> int) list" where
  "alias_bounds member_bounds struct_member =
     map (\<lambda>r. (impl_owner r, impl_id r, impl_alias_id r))
       (filter (\<lambda>r. max (impl_check_base r) (impl_base r) < min (impl_check_top r) (impl_top r)
                  \<and> \<not> sql_like (impl_alias_name r @ ''%'') (impl_name r)
                  \<and> \<not> sql_like (impl_name r @ ''%'') (impl_alias_name r))
          (impl member_bounds struct_member))"

text \<open>
  \<open>find_imprecise_alias_query_\<close> bound to \<open>@owner\<close>: the (subobj, alias) pairs that
  \<open>EndUnit\<close> inserts into \<open>subobject_alias\<close> for one entry.
\<close>

definition find_imprecise_alias_query :: "member_bounds_row list \<Rightarrow> struct_member_row list
    \<Rightarrow> int \<Rightarrow> (int \<times> int) list" where
  "find_imprecise_alias_query member_bounds struct_member owner =
     map (\<lambda>(ab_owner, subobj_id, alias_id). (subobj_id, alias_id))
       (filter (\<lambda>(ab_owner, subobj_id, alias_id). ab_owner = owner)
          (alias_bounds member_bounds struct_member))"

section \<open>Visiting record DIEs (VisitCommon, VisitMember, VisitMemberType)\<close>

text \<open>
  A DIE as the visitor sees it: the attributes it looks up (an absent attribute is
  \<open>None\<close>, or \<open>False\<close> for the two the code only tests for presence) and its children.
  Each child comes with the \<open>TypeInfo\<close> that \<open>GetTypeInfo\<close> (not among the sources)
  returns for the DIE the child's \<open>DW_AT_type\<close> refers to; \<open>VisitMemberType\<close> reads it,
  for the \<open>DW_TAG_member\<close> children only.
\<close>

datatype dw_tag = DW_TAG_member | DW_TAG_structure_type | DW_TAG_class_type
  | DW_TAG_union_type | DW_TAG_typedef | DW_TAG_other

record DieAttrs =
  getTag :: dw_tag
  getOffset :: u64
  DW_AT_declaration :: bool
  DW_AT_specification :: bool
  DW_AT_byte_size :: "u64 option"
  DW_AT_name :: "string option"
  getDeclFile :: string
  getDeclLine :: u64
  DW_AT_bit_size :: "u64 option"
  DW_AT_data_member_location :: "u64 option"
  DW_AT_data_bit_offset :: "u64 option"
  DW_AT_bit_offset :: "u64 option"

datatype DwarfDie = DwarfDie (attrs: DieAttrs) (children: "(DwarfDie \<times> TypeInfo) list")
  and TypeInfo = TypeInfo (ti_type_name: string) (ti_byte_size: u64) (ti_flags: flags)
    (ti_array_items: "u64 option") (type_die: DwarfDie)

text \<open>
  Modelled from the spec: the enumerators of \<open>StructTypeFlags\<close> and \<open>TypeInfoFlags\<close>,
  whose declarations are not among the sources, have the bits of the spec's flag table
  (bit 0 is_struct, bit 1 is_union, bit 2 is_class, bit 3 is_anonymous).
\<close>

definition kTypeNone :: flags where "kTypeNone = 0"
definition kTypeIsStruct :: flags where "kTypeIsStruct = 1"
definition kTypeIsUnion :: flags where "kTypeIsUnion = 2"
definition kTypeIsClass :: flags where "kTypeIsClass = 4"
definition kTypeIsAnonymous :: flags where "kTypeIsAnonymous = 8"

definition record_type_mask :: flags where
  "record_type_mask = or (or kTypeIsStruct kTypeIsUnion) kTypeIsClass"

text \<open>
  The scraper's state: \<open>struct_type_map_\<close>, the two static counters of \<open>GetStructTypeId\<close>
  and \<open>GetStructMemberId\<close> (both start at 1), and the global logger with the calls it
  has made.
\<close>

record Scraper =
  struct_type_map :: "((string \<times> string \<times> u64) \<times> StructTypeEntry) list"
  type_struct_id :: u64
  member_struct_id :: u64
  logging :: "Logger option \<times> event list"

text \<open>
  What is fixed for a run: the source, \<open>strip_prefix_\<close>, and two functions that are not
  among the sources, \<open>std::filesystem::relative\<close> and \<open>AnonymousName\<close>.
\<close>

record Config =
  dwsrc :: DwarfSource
  strip_prefix :: "string option"
  fs_relative :: "string \<Rightarrow> string \<Rightarrow> string option"
  AnonymousName :: "DieAttrs \<Rightarrow> string option \<Rightarrow> string"

definition GetStructTypeId :: "Scraper \<Rightarrow> u64 \<times> Scraper" where
  "GetStructTypeId st = (type_struct_id st + 1, st\<lparr>type_struct_id := type_struct_id st + 1\<rparr>)"

definition GetStructMemberId :: "Scraper \<Rightarrow> u64 \<times> Scraper" where
  "GetStructMemberId st =
     (member_struct_id st + 1, st\<lparr>member_struct_id := member_struct_id st + 1\<rparr>)"

definition log_as :: "LogLevel \<Rightarrow> string \<Rightarrow> Scraper \<Rightarrow> Scraper" where
  "log_as lvl txt st = st\<lparr>logging := fst (LOG lvl txt (logging st))\<rparr>"

text \<open>Decimal and hexadecimal output (\<open>{:d}\<close>, \<open>std::hex\<close>) and \<open>std::quoted\<close>.\<close>

function show_dec :: "nat \<Rightarrow> string" where
  "show_dec n =
     (if n < 10 then [''0123456789'' ! n]
      else show_dec (n div 10) @ [''0123456789'' ! (n mod 10)])"
  by pat_completeness auto
termination
  by (relation "measure (\<lambda>n. n)") auto

declare show_dec.simps [simp del]

function show_hex :: "nat \<Rightarrow> string" where
  "show_hex n =
     (if n < 16 then [''0123456789abcdef'' ! n]
      else show_hex (n div 16) @ [''0123456789abcdef'' ! (n mod 16)])"
  by pat_completeness auto
termination
  by (relation "measure (\<lambda>n. n)") auto

declare show_hex.simps [simp del]

definition quoted :: "string \<Rightarrow> string" where
  "quoted s =
     ''\"'' @ concat (map (\<lambda>c. if c = CHR ''\"'' \<or> c = CHR 0x5C then [CHR 0x5C, c] else [c]) s)
       @ ''\"''"

text \<open>
  The bit position of a member (lines 479 to 494 of \<open>VisitMember\<close>), from the member's
  \<open>byte_size\<close> and \<open>bit_size\<close> and the location attributes of its DIE.
\<close>

definition value_or :: "'a option \<Rightarrow> 'a \<Rightarrow> 'a" where
  "value_or opt d = (case opt of None \<Rightarrow> d | Some v \<Rightarrow> v)"

definition member_bit_offset :: "bool \<Rightarrow> DieAttrs \<Rightarrow> u64 \<Rightarrow> u64 option \<Rightarrow> u64 option" where
  "member_bit_offset little_endian a byte_size bit_size =
     (let data_offset = value_or (DW_AT_data_member_location a) 0;
          bit_offset = (case DW_AT_data_bit_offset a of
                          Some bit_data_offset \<Rightarrow> Some (data_offset * 8 + bit_data_offset)
                        | None \<Rightarrow> None)
      in case DW_AT_bit_offset a of
           None \<Rightarrow> bit_offset
         | Some old_style_bit_offset \<Rightarrow>
             if little_endian
             then (let shift = old_style_bit_offset + value_or bit_size 0
                   in Some (value_or bit_offset 0 + byte_size * 8 - shift))
             else Some (value_or bit_offset 0 + old_style_bit_offset))"

definition map_insert :: "'k \<Rightarrow> 'v \<Rightarrow> ('k \<times> 'v) list \<Rightarrow> ('k \<times> 'v) list" where
  "map_insert k v m = (if map_of m k = None then m @ [(k, v)] else m)"

text \<open>
  The visitors. An exception leaves with the state it found, so the error side carries
  the state too. A failed \<open>assert\<close> is an error. The rows start from default-constructed
  values, taken as zero, empty and absent. \<open>fs_relative\<close> gives \<open>None\<close> where
  \<open>std::filesystem::relative\<close> throws.
\<close>

fun VisitCommon :: "Config \<Rightarrow> DwarfDie \<Rightarrow> flags \<Rightarrow> Scraper
      \<Rightarrow> (error \<times> Scraper) + (u64 option \<times> Scraper)"
  and VisitChildren :: "Config \<Rightarrow> (DwarfDie \<times> TypeInfo) list \<Rightarrow> StructTypeRow \<Rightarrow> nat
      \<Rightarrow> StructMemberRow list \<Rightarrow> Scraper
      \<Rightarrow> (error \<times> Scraper) + (StructMemberRow list \<times> Scraper)"
  and VisitMember :: "Config \<Rightarrow> DwarfDie \<Rightarrow> TypeInfo \<Rightarrow> StructTypeRow \<Rightarrow> nat \<Rightarrow> Scraper
      \<Rightarrow> (error \<times> Scraper) + (StructMemberRow \<times> Scraper)"
  and VisitMemberType :: "Config \<Rightarrow> TypeInfo \<Rightarrow> StructMemberRow \<Rightarrow> Scraper
      \<Rightarrow> (error \<times> Scraper) + (StructMemberRow \<times> Scraper)" where
  "VisitCommon cfg (DwarfDie a ch) kind st =
     (if DW_AT_declaration a then Inr (None, st)
      else if DW_AT_specification a
      then Inl (RuntimeError ''Unsupported'',
                log_as kError ''DW_AT_specification unsupported'' st)
      else
        (case DW_AT_byte_size a of
           None \<Rightarrow>
             Inr (None, log_as kWarn
                    (''Missing struct size for DIE @ 0x'' @ show_hex (unat (getOffset a))) st)
         | Some opt_size \<Rightarrow>
             (case (case strip_prefix cfg of
                      Some p \<Rightarrow> fs_relative cfg (getDeclFile a) p
                    | None \<Rightarrow> Some (getDeclFile a)) of
                None \<Rightarrow> Inl (FilesystemError, st)
              | Some file \<Rightarrow>
                  (let row = \<lparr>st_id = 0, st_file = file, st_line = getDeclLine a,
                              st_name = (case DW_AT_name a of
                                           Some name \<Rightarrow> name
                                         | None \<Rightarrow> AnonymousName cfg a (strip_prefix cfg)),
                              st_size = opt_size,
                              st_flags = (case DW_AT_name a of
                                            Some name \<Rightarrow> or kTypeNone kind
                                          | None \<Rightarrow> or (or kTypeNone kind) kTypeIsAnonymous),
                              st_has_imprecise = False\<rparr>;
                       key = (st_name row, st_file row, st_line row)
                   in case map_of (struct_type_map st) key of
                        Some entry \<Rightarrow> Inr (Some (st_id (data entry)), st)
                      | None \<Rightarrow>
                          (case GetStructTypeId st of
                             (new_id, st1) \<Rightarrow>
                               (case VisitChildren cfg ch (row\<lparr>st_id := new_id\<rparr>) 0 [] st1 of
                                  Inl e \<Rightarrow> Inl e
                                | Inr (ms, st2) \<Rightarrow>
                                    Inr (Some new_id,
                                         st2\<lparr>struct_type_map :=
                                               map_insert key
                                                 \<lparr>data = row\<lparr>st_id := new_id\<rparr>,
                                                  members = ms, flattened_layout = [],
                                                  skip_postprocess = False\<rparr>
                                                 (struct_type_map st2)\<rparr>)))))))"
| "VisitChildren cfg [] row member_index acc st = Inr (acc, st)"
| "VisitChildren cfg ((child, ti) # rest) row member_index acc st =
     (if getTag (attrs child) = DW_TAG_member
      then (case VisitMember cfg child ti row member_index st of
              Inl e \<Rightarrow> Inl e
            | Inr (m, st1) \<Rightarrow> VisitChildren cfg rest row (Suc member_index) (acc @ [m]) st1)
      else VisitChildren cfg rest row member_index acc st)"
| "VisitMember cfg (DwarfDie a ch) ti row member_index st =
     (if st_id row = 0
      then Inl (RuntimeError ''Invalid member owner ID'',
                log_as kError (''Can not visit member of '' @ quoted (st_name row)
                               @ '' with invalid owner ID'') st)
      else
        (case GetStructMemberId st of
           (new_id, st1) \<Rightarrow>
             (case VisitMemberType cfg ti
                     \<lparr>sm_id = new_id, sm_owner = st_id row, sm_nested = None, sm_name = [],
                      sm_type_name = [], sm_line = getDeclLine a, sm_byte_size = 0,
                      sm_bit_size = None, sm_byte_offset = 0, sm_bit_offset = None,
                      sm_flags = 0, sm_array_items = None\<rparr> st1 of
                Inl e \<Rightarrow> Inl e
              | Inr (member, st2) \<Rightarrow>
                  (let byte_size = value_or (DW_AT_byte_size a) (sm_byte_size member);
                       bit_size = DW_AT_bit_size a;
                       data_offset = value_or (DW_AT_data_member_location a) 0;
                       bit_offset = member_bit_offset (isLittleEndian (dwsrc cfg)) a
                                      byte_size bit_size;
                       byte_offset = (case bit_offset of
                                        Some b \<Rightarrow> b div 8
                                      | None \<Rightarrow> data_offset);
                       member_bit = (case bit_offset of
                                       Some b \<Rightarrow> Some (b mod 8)
                                     | None \<Rightarrow> None);
                       name = (if and (st_flags row) kTypeIsUnion \<noteq> 0
                               then ''<anon>@'' @ show_dec member_index
                               else ''<anon>@'' @ show_dec (unat byte_offset)
                                    @ (case member_bit of
                                         Some b \<Rightarrow> '':'' @ show_dec (unat b)
                                       | None \<Rightarrow> []))
                   in Inr (member\<lparr>sm_byte_size := byte_size, sm_bit_size := bit_size,
                                  sm_byte_offset := byte_offset, sm_bit_offset := member_bit,
                                  sm_name := value_or (DW_AT_name a) name\<rparr>, st2)))))"
| "VisitMemberType cfg (TypeInfo type_name byte_size member_flags array_items tdie) member st =
     (let member1 = member\<lparr>sm_type_name := type_name, sm_byte_size := byte_size,
                            sm_flags := member_flags, sm_array_items := array_items\<rparr>
      in if and member_flags record_type_mask \<noteq> 0
         then (case VisitCommon cfg tdie
                      (if and member_flags kTypeIsStruct \<noteq> 0 then or kTypeNone kTypeIsStruct
                       else if and member_flags kTypeIsUnion \<noteq> 0 then or kTypeNone kTypeIsUnion
                       else if and member_flags kTypeIsClass \<noteq> 0 then or kTypeNone kTypeIsClass
                       else kTypeNone) st of
                 Inl e \<Rightarrow> Inl e
               | Inr (nested, st1) \<Rightarrow>
                   if nested = None \<or> nested = Some 0
                   then Inl (AssertFailed ''Structure type ID must be set'', st1)
                   else Inr (member1\<lparr>sm_nested := nested\<rparr>, st1))
         else Inr (member1, st))"

text \<open>
  Where a visit can meet an unsupported DIE: a DIE with \<open>DW_AT_specification\<close> and without
  \<open>DW_AT_declaration\<close>, the visited DIE itself or the record DIE of a member's type, of a
  member of such a record, and so on, below DIEs that are neither declarations nor
  without a size.
\<close>

fun unsupported_in :: "DwarfDie \<Rightarrow> bool"
  and unsupported_in_children :: "(DwarfDie \<times> TypeInfo) list \<Rightarrow> bool"
  and unsupported_in_type :: "TypeInfo \<Rightarrow> bool" where
  "unsupported_in (DwarfDie a ch) =
     (if DW_AT_declaration a then False
      else if DW_AT_specification a then True
      else if DW_AT_byte_size a = None then False
      else unsupported_in_children ch)"
| "unsupported_in_children [] = False"
| "unsupported_in_children ((child, ti) # rest) =
     (if getTag (attrs child) = DW_TAG_member \<and> unsupported_in_type ti then True
      else unsupported_in_children rest)"
| "unsupported_in_type (TypeInfo type_name byte_size member_flags array_items tdie) =
     (if and member_flags record_type_mask \<noteq> 0 then unsupported_in tdie else False)"

section \<open>Example inputs\<close>

text \<open>
  A stand-in for the capability encoder, which is not among the sources: a range shorter
  than 4096 bytes is representable as it is, a longer one is widened to multiples of
  4096 at both ends. It is used only to evaluate the scraper on the examples below.
\<close>

definition coarse_source :: DwarfSource where
  "coarse_source =
     \<lparr>FindRepresentableRange =
        (\<lambda>b l. if l < 4096 then (b, l)
               else ((b div 4096) * 4096,
                     ((b - (b div 4096) * 4096 + l + 4095) div 4096) * 4096)),
      FindRequiredPrecision = (\<lambda>b l. 1),
      isLittleEndian = True\<rparr>"

definition plain_member :: "u64 \<Rightarrow> u64 \<Rightarrow> u64 option \<Rightarrow> string \<Rightarrow> string \<Rightarrow> u64 \<Rightarrow> u64
    \<Rightarrow> StructMemberRow" where
  "plain_member i owner nested name type_name byte_size byte_offset =
     \<lparr>sm_id = i, sm_owner = owner, sm_nested = nested, sm_name = name,
      sm_type_name = type_name, sm_line = 1, sm_byte_size = byte_size, sm_bit_size = None,
      sm_byte_offset = byte_offset, sm_bit_offset = None, sm_flags = 0,
      sm_array_items = None\<rparr>"

definition struct_entry :: "u64 \<Rightarrow> string \<Rightarrow> u64 \<Rightarrow> StructMemberRow list \<Rightarrow> StructTypeEntry" where
  "struct_entry i name byte_size ms =
     \<lparr>data = \<lparr>st_id = i, st_file = ''foo.c'', st_line = 1, st_name = name,
              st_size = byte_size, st_flags = 1, st_has_imprecise = False\<rparr>,
      members = ms, flattened_layout = [], skip_postprocess = False\<rparr>"

text \<open>Scenario D: \<open>struct Outer { struct Inner { int a; int b; } inner; int c; }\<close>.\<close>

definition Inner_entry :: StructTypeEntry where
  "Inner_entry = struct_entry 3 ''Inner'' 8
     [plain_member 2 3 None ''a'' ''int'' 4 0, plain_member 3 3 None ''b'' ''int'' 4 4]"

definition Outer_entry :: StructTypeEntry where
  "Outer_entry = struct_entry 2 ''Outer'' 12
     [plain_member 4 2 (Some 3) ''inner'' ''Inner'' 8 0, plain_member 5 2 None ''c'' ''int'' 4 8]"

text \<open>\<open>struct Late { int c; struct Inner inner; }\<close>: the nested record is at offset 4.\<close>

definition Late_entry :: StructTypeEntry where
  "Late_entry = struct_entry 4 ''Late'' 12
     [plain_member 6 4 None ''c'' ''int'' 4 0, plain_member 7 4 (Some 3) ''inner'' ''Inner'' 8 4]"

text \<open>\<open>struct Big { char tag; char buf[0x2000]; }\<close>.\<close>

definition Big_entry :: StructTypeEntry where
  "Big_entry = struct_entry 5 ''Big'' 0x2001
     [plain_member 8 5 None ''tag'' ''char'' 1 0,
      plain_member 9 5 None ''buf'' ''char [8192]'' 0x2000 1]"

text \<open>A record with a member whose \<open>DW_AT_bit_size\<close> is 0, after a 3-bit bit-field.\<close>

definition Bits_entry :: StructTypeEntry where
  "Bits_entry = struct_entry 6 ''Bits'' 8
     [(plain_member 10 6 None ''f'' ''unsigned int'' 4 0)
        \<lparr>sm_bit_size := Some 3, sm_bit_offset := Some 0\<rparr>,
      (plain_member 11 6 None ''z'' ''unsigned int'' 4 4)\<lparr>sm_bit_size := Some 0\<rparr>]"

text \<open>A record whose last member ends at the top of the 64-bit range.\<close>

definition Edge_entry :: StructTypeEntry where
  "Edge_entry = struct_entry 7 ''Edge'' 0xFFFFFFFFFFFFFFFF
     [plain_member 12 7 None ''last'' ''char [4096]'' 0x1000 0xFFFFFFFFFFFFE001]"

text \<open>
  Scenario E in the tables: \<open>union V { uint64_t w; struct { uint32_t lo; uint32_t hi; } s; }\<close>,
  with the rows of \<open>V::w\<close>, \<open>V::s::lo\<close>, \<open>V::s::hi\<close> and \<open>V::s\<close>.
\<close>

definition V_bounds_row :: "int \<Rightarrow> string \<Rightarrow> int \<Rightarrow> int \<Rightarrow> int \<Rightarrow> member_bounds_row" where
  "V_bounds_row i name member offset byte_size =
     \<lparr>mbt_id = i, mbt_owner = 1, mbt_name = name, mbt_member = member, mbt_offset = offset,
      mbt_base = offset, mbt_top = offset + byte_size, mbt_is_imprecise = False,
      mbt_precision = Some 1\<rparr>"

definition V_member_row :: "int \<Rightarrow> int \<Rightarrow> int option \<Rightarrow> string \<Rightarrow> int \<Rightarrow> int
    \<Rightarrow> struct_member_row" where
  "V_member_row i owner nested name byte_size offset =
     \<lparr>smt_id = i, smt_owner = owner, smt_nested = nested, smt_name = name,
      smt_type_name = ''uint'', smt_line = 1, smt_size = byte_size, smt_bit_size = None,
      smt_offset = offset, smt_bit_offset = None, smt_flags = 0, smt_array_items = None\<rparr>"

definition V_member_bounds :: "member_bounds_row list" where
  "V_member_bounds =
     [V_bounds_row 1 ''V::w'' 1 0 8, V_bounds_row 2 ''V::s::lo'' 3 0 4,
      V_bounds_row 3 ''V::s::hi'' 4 4 4, V_bounds_row 4 ''V::s'' 2 0 8]"

definition V_struct_member :: "struct_member_row list" where
  "V_struct_member =
     [V_member_row 1 1 None ''w'' 8 0, V_member_row 2 1 (Some 2) ''s'' 8 0,
      V_member_row 3 2 None ''lo'' 4 0, V_member_row 4 2 None ''hi'' 4 4]"

text \<open>
  Two overlapping members of one owner whose names differ in the last character only:
  the first ends with the byte \<open>0xC3\<close> alone, the second with \<open>0xC3 0xA9\<close>.
\<close>

definition cut_member_bounds :: "member_bounds_row list" where
  "cut_member_bounds =
     [V_bounds_row 1 (''S::'' @ [CHR 0xC3]) 1 0 8,
      V_bounds_row 2 (''S::'' @ [CHR 0xC3, CHR 0xA9]) 2 0 8]"

definition cut_struct_member :: "struct_member_row list" where
  "cut_struct_member =
     [V_member_row 1 1 None [CHR 0xC3] 8 0, V_member_row 2 1 None [CHR 0xC3, CHR 0xA9] 8 0]"

section \<open>Example DIEs\<close>

text \<open>DIEs: attributes all absent, a base type, and a run with no prefix to strip.\<close>

definition empty_attrs :: "dw_tag \<Rightarrow> DieAttrs" where
  "empty_attrs t =
     \<lparr>getTag = t, getOffset = 0, DW_AT_declaration = False, DW_AT_specification = False,
      DW_AT_byte_size = None, DW_AT_name = None, getDeclFile = ''/src/foo.c'', getDeclLine = 1,
      DW_AT_bit_size = None, DW_AT_data_member_location = None, DW_AT_data_bit_offset = None,
      DW_AT_bit_offset = None\<rparr>"

definition base_type :: "string \<Rightarrow> u64 \<Rightarrow> TypeInfo" where
  "base_type name byte_size =
     TypeInfo name byte_size 0 None
       (DwarfDie ((empty_attrs DW_TAG_other)\<lparr>DW_AT_name := Some name,
                                             DW_AT_byte_size := Some byte_size\<rparr>) [])"

definition member_die :: "string \<Rightarrow> u64 \<Rightarrow> DwarfDie" where
  "member_die name location =
     DwarfDie ((empty_attrs DW_TAG_member)\<lparr>DW_AT_name := Some name,
                                           DW_AT_data_member_location := Some location\<rparr>) []"

definition struct_die :: "string \<Rightarrow> u64 \<Rightarrow> (DwarfDie \<times> TypeInfo) list \<Rightarrow> DwarfDie" where
  "struct_die name byte_size ch =
     DwarfDie ((empty_attrs DW_TAG_structure_type)\<lparr>DW_AT_name := Some name,
                                                   DW_AT_byte_size := Some byte_size\<rparr>) ch"

definition plain_config :: "bool \<Rightarrow> Config" where
  "plain_config little_endian =
     \<lparr>dwsrc = coarse_source\<lparr>isLittleEndian := little_endian\<rparr>, strip_prefix = None,
      fs_relative = (\<lambda>file base. Some file), AnonymousName = (\<lambda>a base. ''<anon>'')\<rparr>"

definition fresh_scraper :: Scraper where
  "fresh_scraper =
     \<lparr>struct_type_map = [], type_struct_id = 1, member_struct_id = 1, logging = (None, [])\<rparr>"

text \<open>
  \<open>struct S { int x; unsigned flag : 3; }\<close> as DWARF 2 and 3 describe it: the bit-field
  lies in the 4-byte unit at \<open>DW_AT_data_member_location\<close> 4, and \<open>DW_AT_bit_offset\<close>
  counts from the most significant bit of the unit, which makes it 29 on a little-endian
  target and 0 on a big-endian one.
\<close>

definition flag_die :: "u64 \<Rightarrow> DwarfDie" where
  "flag_die old_style_bit_offset =
     DwarfDie ((empty_attrs DW_TAG_member)\<lparr>DW_AT_name := Some ''flag'',
                  DW_AT_byte_size := Some 4, DW_AT_bit_size := Some 3,
                  DW_AT_data_member_location := Some 4,
                  DW_AT_bit_offset := Some old_style_bit_offset\<rparr>) []"

definition S_row :: StructTypeRow where
  "S_row = \<lparr>st_id = 2, st_file = ''/src/foo.c'', st_line = 1, st_name = ''S'', st_size = 8,
            st_flags = kTypeIsStruct, st_has_imprecise = False\<rparr>"

text \<open>The member \<open>z\<close> of \<open>Bits\<close>: a member DIE whose \<open>DW_AT_bit_size\<close> is 0.\<close>

definition zero_width_die :: DwarfDie where
  "zero_width_die =
     DwarfDie ((empty_attrs DW_TAG_member)\<lparr>DW_AT_name := Some ''z'',
                  DW_AT_bit_size := Some 0, DW_AT_data_member_location := Some 4\<rparr>) []"

definition Bits_row :: StructTypeRow where
  "Bits_row = \<lparr>st_id = 6, st_file = ''foo.c'', st_line = 1, st_name = ''Bits'', st_size = 8,
               st_flags = kTypeIsStruct, st_has_imprecise = False\<rparr>"

text \<open>A record DIE with both \<open>DW_AT_declaration\<close> and \<open>DW_AT_specification\<close>.\<close>

definition declared_specified_die :: DwarfDie where
  "declared_specified_die =
     DwarfDie ((empty_attrs DW_TAG_structure_type)\<lparr>DW_AT_name := Some ''S'',
                  DW_AT_declaration := True, DW_AT_specification := True\<rparr>) []"

text \<open>
  A record DIE without \<open>DW_AT_specification\<close> that has a member whose record type
  carries it.
\<close>

definition specified_die :: DwarfDie where
  "specified_die =
     DwarfDie ((empty_attrs DW_TAG_structure_type)\<lparr>DW_AT_name := Some ''Part'',
                  DW_AT_byte_size := Some 8, DW_AT_specification := True\<rparr>) []"

definition holder_die :: DwarfDie where
  "holder_die =
     struct_die ''Holder'' 8
       [(member_die ''part'' 0, TypeInfo ''Part'' 8 kTypeIsStruct None specified_die)]"

text \<open>A record DIE without \<open>DW_AT_byte_size\<close>, at offset 0x2a of its unit.\<close>

definition sizeless_die :: DwarfDie where
  "sizeless_die =
     DwarfDie ((empty_attrs DW_TAG_structure_type)\<lparr>DW_AT_name := Some ''S'',
                  getOffset := 0x2a\<rparr>) []"

text \<open>Scenario D as DIEs.\<close>

definition Inner_die :: DwarfDie where
  "Inner_die =
     struct_die ''Inner'' 8
       [(member_die ''a'' 0, base_type ''int'' 4), (member_die ''b'' 4, base_type ''int'' 4)]"

definition Outer_die :: DwarfDie where
  "Outer_die =
     struct_die ''Outer'' 12
       [(member_die ''inner'' 0, TypeInfo ''Inner'' 8 kTypeIsStruct None Inner_die),
        (member_die ''c'' 8, base_type ''int'' 4)]"

text \<open>A run that strips a prefix, on a system where \<open>std::filesystem::relative\<close> fails.\<close>

definition failing_config :: Config where
  "failing_config =
     \<lparr>dwsrc = coarse_source, strip_prefix = Some ''/src'',
      fs_relative = (\<lambda>file base. None), AnonymousName = (\<lambda>a base. ''<anon>'')\<rparr>"

section \<open>Unfolding the definitions\<close>

lemmas example_defs = coarse_source_def plain_member_def struct_entry_def Inner_entry_def
  Outer_entry_def Late_entry_def Big_entry_def Bits_entry_def Edge_entry_def
lemmas flatten_defs = FindSubobjectCapabilities_def mb_row_def req_length_def
  mark_imprecise_def push_back_def substr_def Let_def
lemmas table_defs = V_member_bounds_def V_struct_member_def V_bounds_row_def V_member_row_def
  cut_member_bounds_def cut_struct_member_def
lemmas query_defs = find_imprecise_alias_query_def alias_bounds_def impl_def IIF_bit_size_def
  sql_like_def sql_text_def byte_of_def is_continuation_def utf8_replace_def
  sqlite3Utf8Trans1_def sqlite3Tolower_def


section \<open>Unfolding the visitors\<close>

lemmas die_defs = empty_attrs_def base_type_def member_die_def struct_die_def
  plain_config_def fresh_scraper_def flag_die_def S_row_def declared_specified_die_def
  specified_die_def holder_die_def sizeless_die_def Inner_die_def Outer_die_def
  zero_width_die_def Bits_row_def failing_config_def
lemmas flag_defs = kTypeNone_def kTypeIsStruct_def kTypeIsUnion_def kTypeIsClass_def
  kTypeIsAnonymous_def record_type_mask_def
lemmas visit_defs = GetStructTypeId_def GetStructMemberId_def log_as_def member_bit_offset_def
  value_or_def map_insert_def Let_def

section \<open>Properties of the logger\<close>

lemma run_ops_keeps_info:
  "Logger_level lg = kInfo \<Longrightarrow> list_all (\<lambda>op. \<not> is_SetLevel op) ops
   \<Longrightarrow> list_all (\<lambda>e. \<not> delivered_above_info e) tr
   \<Longrightarrow> Logger_level (fst (run_ops ops (lg, tr))) = kInfo
       \<and> list_all (\<lambda>e. \<not> delivered_above_info e) (snd (run_ops ops (lg, tr)))"
proof (induction ops arbitrary: lg tr)
  case Nil
  then show ?case by simp
next
  case (Cons op ops)
  show ?case
  proof (cases op)
    case (OpAddSink s)
    with Cons.prems Cons.IH [of "AddSink s lg" tr] show ?thesis
      by (simp add: AddSink_def)
  next
    case (OpSetLevel lvl)
    with Cons.prems show ?thesis by simp
  next
    case (OpEmit m)
    have "list_all (\<lambda>e. \<not> delivered_above_info e) (Logger_Emit lg m tr)"
      using Cons.prems(1,3)
      by (cases "level m") (auto simp: Logger_Emit_def list_all_iff)
    with OpEmit Cons.prems Cons.IH [of lg "Logger_Emit lg m tr"] show ?thesis
      by simp
  qed
qed

lemma LOG_loop_fresh:
  "LOG_loop txt (NewStream lvl) 0
     = (\<lparr>LogAs_level = lvl, LogAs_stream = txt, LogAs_consumed_flag = True\<rparr>, Suc 0)"
proof -
  let ?h = "\<lparr>LogAs_level = lvl, LogAs_stream = txt, LogAs_consumed_flag = True\<rparr>"
  have stop: "LOG_loop txt ?h (Suc 0) = (?h, Suc 0)"
    by (subst LOG_loop.simps) (simp add: operator_bool_def)
  show ?thesis
    by (subst LOG_loop.simps)
       (simp add: NewStream_def operator_bool_def Stream_write_def stop)
qed

lemma LOG_result:
  "LOG lvl txt st
     = ((snd (Logger_Get (fst st)),
         Logger_Emit (fst (Logger_Get (fst st))) \<lparr>level = lvl, message = txt\<rparr> (snd st)), 1)"
  by (simp add: LOG_def LOG_loop_fresh LogAs_dtor_def split: prod.splits)

lemma operator_bool_after:
  "LogAs_consumed_flag h \<Longrightarrow> operator_bool h = (True, h)"
  by (simp add: operator_bool_def)

lemma operator_bool_iter:
  "((snd \<circ> operator_bool) ^^ Suc n) h = h\<lparr>LogAs_consumed_flag := True\<rparr>"
  by (induction n) (simp_all add: operator_bool_def)

text \<open>
  C9. A logger created by \<open>Logger::Get()\<close> or \<open>Logger::Default()\<close> starts with the
  filter at \<open>kInfo\<close>, whatever level the constructor is given; as long as \<open>SetLevel\<close>
  is not called the filter stays there, no sink has received a \<open>kDebug\<close> or \<open>kTrace\<close>
  message, and \<open>Emit\<close> of such a message calls no sink. The logger created by
  \<open>Get()\<close> has no sink.
\<close>

theorem logger_created_at_info:
  assumes "lg = fst (Logger_Get None) \<or> lg = fst (Logger_Default None)"
    and "list_all (\<lambda>op. \<not> is_SetLevel op) ops"
    and "level m = kDebug \<or> level m = kTrace"
  shows "Logger_ctor lvl = \<lparr>Logger_level = kInfo, Logger_sinks = []\<rparr>
    \<and> Logger_level lg = kInfo
    \<and> Logger_level (fst (run_ops ops (lg, []))) = kInfo
    \<and> list_all (\<lambda>e. \<not> delivered_above_info e) (snd (run_ops ops (lg, [])))
    \<and> Logger_Emit (fst (run_ops ops (lg, []))) m tr = tr @ [EmitCall m]
    \<and> Logger_sinks (fst (Logger_Get None)) = []
    \<and> Logger_sinks (fst (Logger_Default None)) = [ConsoleLogSink]"
proof -
  have start: "Logger_level lg = kInfo"
    using assms(1)
    by (auto simp: Logger_Get_def Logger_Default_def Logger_ctor_def AddSink_def Let_def)
  have kept: "Logger_level (fst (run_ops ops (lg, []))) = kInfo
      \<and> list_all (\<lambda>e. \<not> delivered_above_info e) (snd (run_ops ops (lg, [])))"
    using run_ops_keeps_info [OF start assms(2), of "[]"] by simp
  have drop: "Logger_Emit (fst (run_ops ops (lg, []))) m tr = tr @ [EmitCall m]"
    using kept assms(3) by (auto simp: Logger_Emit_def)
  show ?thesis
    using start kept drop
    by (simp add: Logger_Get_def Logger_Default_def Logger_ctor_def AddSink_def Let_def)
qed

theorem logger_created_at_info_witness:
  "(fst (Logger_Get None) = fst (Logger_Get None)
      \<or> fst (Logger_Get None) = fst (Logger_Default None))
   \<and> list_all (\<lambda>op. \<not> is_SetLevel op)
        [OpAddSink ConsoleLogSink, OpEmit \<lparr>level = kWarn, message = ''w''\<rparr>,
         OpEmit \<lparr>level = kDebug, message = ''d''\<rparr>]
   \<and> (level \<lparr>level = kTrace, message = ''t''\<rparr> = kDebug
      \<or> level \<lparr>level = kTrace, message = ''t''\<rparr> = kTrace)
   \<and> Logger_ctor kTrace = \<lparr>Logger_level = kInfo, Logger_sinks = []\<rparr>
   \<and> snd (run_ops [OpAddSink ConsoleLogSink, OpEmit \<lparr>level = kWarn, message = ''w''\<rparr>,
         OpEmit \<lparr>level = kDebug, message = ''d''\<rparr>] (fst (Logger_Get None), []))
       = [EmitCall \<lparr>level = kWarn, message = ''w''\<rparr>,
          SinkEmit ConsoleLogSink \<lparr>level = kWarn, message = ''w''\<rparr>,
          EmitCall \<lparr>level = kDebug, message = ''d''\<rparr>]
   \<and> Logger_Emit (fst (run_ops [OpAddSink ConsoleLogSink,
         OpEmit \<lparr>level = kWarn, message = ''w''\<rparr>,
         OpEmit \<lparr>level = kDebug, message = ''d''\<rparr>] (fst (Logger_Get None), [])))
        \<lparr>level = kTrace, message = ''t''\<rparr> []
       = [EmitCall \<lparr>level = kTrace, message = ''t''\<rparr>]"
  using logger_created_at_info [of "fst (Logger_Get None)"
      "[OpAddSink ConsoleLogSink, OpEmit \<lparr>level = kWarn, message = ''w''\<rparr>,
        OpEmit \<lparr>level = kDebug, message = ''d''\<rparr>]"
      "\<lparr>level = kTrace, message = ''t''\<rparr>" kTrace "[]"]
  by (simp add: Logger_Get_def Logger_ctor_def AddSink_def Logger_Emit_def Let_def)

text \<open>
  C10. On a handle made by \<open>NewStream\<close>, \<open>operator bool\<close> gives false the first time
  and true every time after; so the loop of \<open>LOG\<close> runs its body once, and the whole
  statement amounts to one call of \<open>Logger::Emit\<close> with the assembled message, made by
  the destructor.
\<close>

theorem LogAs_consumed_once:
  "fst (operator_bool (NewStream lvl)) = False
   \<and> fst (operator_bool (((snd \<circ> operator_bool) ^^ Suc n) (NewStream lvl))) = True
   \<and> snd (LOG lvl txt (g, tr)) = 1
   \<and> fst (LOG lvl txt (g, tr))
       = (snd (Logger_Get g),
          Logger_Emit (fst (Logger_Get g)) \<lparr>level = lvl, message = txt\<rparr> tr)
   \<and> length (filter is_EmitCall (snd (fst (LOG lvl txt (g, tr)))))
       = Suc (length (filter is_EmitCall tr))
   \<and> LogAs_dtor lg (NewStream lvl) tr = tr"
proof -
  have first: "fst (operator_bool (NewStream lvl)) = False"
    by (simp add: operator_bool_def NewStream_def)
  have later: "fst (operator_bool (((snd \<circ> operator_bool) ^^ Suc n) (NewStream lvl))) = True"
    unfolding operator_bool_iter by (simp add: operator_bool_def)
  have whole: "LOG lvl txt (g, tr)
      = ((snd (Logger_Get g),
          Logger_Emit (fst (Logger_Get g)) \<lparr>level = lvl, message = txt\<rparr> tr), 1)"
    by (simp add: LOG_result)
  have calls: "length (filter is_EmitCall (Logger_Emit l x tr))
      = Suc (length (filter is_EmitCall tr))" for l x
    by (simp add: Logger_Emit_def filter_map o_def)
  have unused: "LogAs_dtor lg (NewStream lvl) tr = tr"
    by (simp add: LogAs_dtor_def NewStream_def)
  show ?thesis
    using first later unused by (simp add: whole calls)
qed

section \<open>Properties of FindSubobjectCapabilities\<close>

lemma mark_imprecise_id: "mark_imprecise row entry = entry"
  by (simp add: mark_imprecise_def)


text \<open>
  The recursion returns: a record without nested members needs no fuel, and a run that
  returns with some fuel returns the same with more.
\<close>

lemma FlattenedLayout_flat:
  "list_all (\<lambda>m. sm_nested m = None) ms \<Longrightarrow>
   FlattenedLayout fuel src ebi ms off pfx e
     = Some (Inr (e\<lparr>flattened_layout := flattened_layout e
          @ map (\<lambda>m. mb_row src (st_id (data e)) m off pfx) ms\<rparr>))"
proof (induction ms arbitrary: e)
  case Nil
  then show ?case by simp
next
  case (Cons m ms)
  then show ?case
    by (simp add: mark_imprecise_id push_back_def Let_def)
qed

lemma FlattenedLayout_more_fuel:
  "FlattenedLayout fuel src ebi ms off pfx e = Some r \<Longrightarrow>
   FlattenedLayout (Suc fuel) src ebi ms off pfx e = Some r"
proof (induction fuel src ebi ms off pfx e arbitrary: r rule: FlattenedLayout.induct)
  case (1 fuel src entry_by_id offset pfx entry)
  then show ?case by simp
next
  case (2 fuel src entry_by_id m ms offset pfx entry)
  let ?row = "mb_row src (st_id (data entry)) m offset pfx"
  show ?case
  proof (cases "sm_nested m")
    case None
    with "2.prems" have run:
      "FlattenedLayout fuel src entry_by_id ms offset pfx (push_back ?row entry) = Some r"
      by (simp add: mark_imprecise_id Let_def)
    from "2.IH"(1) [OF refl refl None, unfolded mark_imprecise_id, OF run] None
    show ?thesis by (simp add: mark_imprecise_id Let_def)
  next
    case (Some nid)
    show ?thesis
    proof (cases "nid = 0")
      case True
      with Some "2.prems" show ?thesis by (simp add: Let_def)
    next
      case nz: False
      show ?thesis
      proof (cases "map_of entry_by_id nid")
        case None
        with Some nz "2.prems" show ?thesis by (simp add: Let_def)
      next
        case look: (Some nested)
        define inner where "inner f =
          (if flattened_layout nested = []
           then (case f of
                   0 \<Rightarrow> None
                 | Suc fuel1 \<Rightarrow>
                     FlattenedLayout fuel1 src entry_by_id (members nested) 0
                       (st_name (data nested)) entry)
           else Some (Inr entry))" for f
        define after where "after f x =
          (case x of
             Inl e \<Rightarrow> Some (Inl e)
           | Inr entry1 \<Rightarrow>
               (case merge_nested (flattened_layout nested) offset pfx
                       (st_name (data nested)) entry1 of
                  Inl e \<Rightarrow> Some (Inl e)
                | Inr entry2 \<Rightarrow>
                    FlattenedLayout f src entry_by_id ms offset pfx (push_back ?row entry2)))"
          for f x
        have unfold: "FlattenedLayout f src entry_by_id (m # ms) offset pfx entry =
          (case inner f of None \<Rightarrow> None | Some x \<Rightarrow> after f x)" for f
          using Some nz look
          by (simp add: Let_def mark_imprecise_id inner_def after_def
              split: option.splits sum.splits)
        from "2.prems" have p: "(case inner fuel of None \<Rightarrow> None | Some x \<Rightarrow> after fuel x) = Some r"
          by (simp only: unfold)
        then obtain x where x: "inner fuel = Some x" and ax: "after fuel x = Some r"
          by (auto split: option.splits)
        have up: "inner (Suc fuel) = Some x"
        proof (cases "flattened_layout nested = []")
          case True
          with x obtain fuel1 where f: "fuel = Suc fuel1" and
            r1: "FlattenedLayout fuel1 src entry_by_id (members nested) 0
               (st_name (data nested)) entry = Some x"
            by (auto simp: inner_def split: nat.splits)
          from "2.IH"(2) [OF refl refl Some nz look True f, unfolded mark_imprecise_id, OF r1]
          show ?thesis using True f by (simp add: inner_def)
        next
          case False
          with x show ?thesis by (simp add: inner_def)
        qed
        have aup: "after (Suc fuel) x = Some r"
        proof (cases x)
          case (Inl e)
          with ax show ?thesis by (auto simp: after_def)
        next
          case (Inr entry1)
          show ?thesis
          proof (cases "merge_nested (flattened_layout nested) offset pfx
                       (st_name (data nested)) entry1")
            case (Inl e)
            with ax Inr show ?thesis by (auto simp: after_def)
          next
            case mg: (Inr entry2)
            from ax Inr mg have run:
              "FlattenedLayout fuel src entry_by_id ms offset pfx (push_back ?row entry2) = Some r"
              by (simp add: after_def)
            from "2.IH"(3) [OF refl refl Some nz look, unfolded mark_imprecise_id,
                OF x [unfolded inner_def Inr] refl mg run]
            show ?thesis using Inr mg by (simp add: after_def)
          qed
        qed
        show ?thesis
          by (simp only: unfold up aup option.case)
      qed
    qed
  qed
qed




text \<open>
  C1 (the code does not do this). An imprecise row does not set \<open>has_imprecise\<close>: for
  \<open>struct Big { char tag; char buf[0x2000]; }\<close> the row of \<open>buf\<close> is imprecise and the
  entry that \<open>FindSubobjectCapabilities\<close> leaves still has \<open>has_imprecise = false\<close>.
\<close>

theorem has_imprecise_never_set:
  "FindSubobjectCapabilities 0 coarse_source [(5 :: u64, Big_entry)] Big_entry
     = Some (Inr (Big_entry\<lparr>flattened_layout :=
          map (\<lambda>m. mb_row coarse_source 5 m 0 ''Big'') (members Big_entry)\<rparr>))
   \<and> map mb_is_imprecise (map (\<lambda>m. mb_row coarse_source 5 m 0 ''Big'') (members Big_entry))
       = [False, True]
   \<and> st_has_imprecise (data (Big_entry\<lparr>flattened_layout :=
          map (\<lambda>m. mb_row coarse_source 5 m 0 ''Big'') (members Big_entry)\<rparr>)) = False"
  by (simp add: example_defs flatten_defs)

theorem has_imprecise_never_set_witness:
  "\<exists>entry' row.
     FindSubobjectCapabilities 0 coarse_source [(5 :: u64, Big_entry)] Big_entry
       = Some (Inr entry')
     \<and> row \<in> set (flattened_layout entry')
     \<and> mb_is_imprecise row
     \<and> st_has_imprecise (data entry') = False"
proof -
  let ?rows = "map (\<lambda>m. mb_row coarse_source 5 m 0 ''Big'') (members Big_entry)"
  let ?entry = "Big_entry\<lparr>flattened_layout := ?rows\<rparr>"
  from has_imprecise_never_set have
    run: "FindSubobjectCapabilities 0 coarse_source [(5 :: u64, Big_entry)] Big_entry
       = Some (Inr ?entry)"
    and flags: "map mb_is_imprecise ?rows = [False, True]"
    and unset: "st_has_imprecise (data ?entry) = False"
    by blast+
  from flags have "True \<in> set (map mb_is_imprecise ?rows)"
    by simp
  then obtain row where "row \<in> set ?rows" "mb_is_imprecise row"
    by auto
  with run unset show ?thesis
    by (intro exI [of _ ?entry] exI [of _ row]) simp
qed

text \<open>
  C2 (the code does not do this). The rows of a nested record reach the outer layout as
  they are, with the nested record's own offsets and names: for
  \<open>struct Late { int c; struct Inner inner; }\<close> with \<open>inner\<close> at offset 4 the rows of
  \<open>Inner\<close> keep offsets 0 and 4 and the names \<open>Inner::a\<close> and \<open>Inner::b\<close>, both when the
  recursive call produces them and when the merge loop copies them from a layout that
  \<open>entry_by_id\<close> already holds.
\<close>

theorem nested_rows_not_rebased:
  "map_option (map_sum id (\<lambda>e. map (\<lambda>r. (mb_name r, mb_offset r)) (flattened_layout e)))
     (FindSubobjectCapabilities 1 coarse_source [(4, Late_entry), (3, Inner_entry)] Inner_entry)
     = Some (Inr [(''Inner::a'', 0), (''Inner::b'', 4)])
   \<and> map_option (map_sum id (\<lambda>e. map (\<lambda>r. (mb_name r, mb_offset r)) (flattened_layout e)))
     (FindSubobjectCapabilities 1 coarse_source [(4, Late_entry), (3, Inner_entry)] Late_entry)
     = Some (Inr [(''Late::c'', 0), (''Inner::a'', 0), (''Inner::b'', 4), (''Late::inner'', 4)])
   \<and> map_option (map_sum id (\<lambda>e. map (\<lambda>r. (mb_name r, mb_offset r)) (flattened_layout e)))
     (FindSubobjectCapabilities 1 coarse_source
        [(4, Late_entry),
         (3, Inner_entry\<lparr>flattened_layout :=
               map (\<lambda>m. mb_row coarse_source 3 m 0 ''Inner'') (members Inner_entry)\<rparr>)]
        Late_entry)
     = Some (Inr [(''Late::c'', 0), (''Inner::a'', 0), (''Inner::b'', 4), (''Late::inner'', 4)])"
  by (simp add: example_defs flatten_defs)

theorem nested_rows_not_rebased_witness:
  "map_option (map_sum id (\<lambda>e. map (\<lambda>r. (mb_name r, mb_offset r)) (flattened_layout e)))
     (FindSubobjectCapabilities 1 coarse_source [(4, Late_entry), (3, Inner_entry)] Late_entry)
     = Some (Inr [(''Late::c'', 0), (''Inner::a'', 0), (''Inner::b'', 4), (''Late::inner'', 4)])"
  using nested_rows_not_rebased by blast




text \<open>
  C7 (the code does not do this). In scenario D the rows of \<open>Outer\<close> come in the order
  nested rows, then \<open>inner\<close>, then \<open>c\<close>, but the nested rows are named \<open>Inner::a\<close> and
  \<open>Inner::b\<close>, not \<open>Outer::inner::a\<close> and \<open>Outer::inner::b\<close>.
\<close>

theorem scenario_D_names:
  "map_option (map_sum id (\<lambda>e. map mb_name (flattened_layout e)))
     (FindSubobjectCapabilities 1 coarse_source [(2, Outer_entry), (3, Inner_entry)] Outer_entry)
     = Some (Inr [''Inner::a'', ''Inner::b'', ''Outer::inner'', ''Outer::c''])"
  by (simp add: example_defs flatten_defs)

theorem scenario_D_names_witness:
  "\<exists>names.
     map_option (map_sum id (\<lambda>e. map mb_name (flattened_layout e)))
       (FindSubobjectCapabilities 1 coarse_source [(2, Outer_entry), (3, Inner_entry)]
          Outer_entry) = Some (Inr names)
     \<and> names ! 0 = ''Inner::a'' \<and> names ! 1 = ''Inner::b''
     \<and> names ! 2 = ''Outer::inner'' \<and> names ! 3 = ''Outer::c''"
  using scenario_D_names
  by (intro exI [of _ "[''Inner::a'', ''Inner::b'', ''Outer::inner'', ''Outer::c'']"]) simp

section \<open>Properties of the alias query\<close>

lemma patternCompare_percent: "patternCompare [0x25] t"
  by (induction t) simp_all

lemma patternCompare_skip: "patternCompare p t \<Longrightarrow> patternCompare (0x25 # p) t"
  by (cases t) simp_all

lemma patternCompare_same: "patternCompare a a"
proof (induction a)
  case Nil
  then show ?case by simp
next
  case (Cons c a)
  then show ?case using patternCompare_skip [of a a] by simp
qed

lemma patternCompare_prefix: "patternCompare (a @ [0x25]) (a @ r)"
proof (induction a)
  case Nil
  then show ?case using patternCompare_percent by simp
next
  case (Cons c a)
  then show ?case using patternCompare_skip [of "a @ [0x25]" "a @ r"] by simp
qed

lemma takeWhile_snoc_stop: "\<not> P y \<Longrightarrow> takeWhile P (xs @ [y]) = takeWhile P xs"
  by (induction xs) simp_all

lemma dropWhile_snoc_stop: "\<not> P y \<Longrightarrow> dropWhile P (xs @ [y]) = dropWhile P xs @ [y]"
  by (induction xs) simp_all

lemma percent_byte: "byte_of CHR ''%'' = 37" "\<not> is_continuation CHR ''%''"
  by (simp_all add: byte_of_def is_continuation_def)

lemma utf8_chars_percent: "utf8_chars (a @ ''%'') = utf8_chars a @ [0x25]"
proof (induction a rule: utf8_chars.induct)
  case 1
  then show ?case by (simp add: percent_byte)
next
  case (2 b bs)
  then show ?case
    by (simp add: takeWhile_snoc_stop dropWhile_snoc_stop percent_byte)
qed

lemma chars_prefix_sql_like:
  assumes "prefix (utf8_chars a) (utf8_chars n)"
  shows "sql_like (a @ ''%'') n"
proof -
  from assms obtain r where n: "utf8_chars n = utf8_chars a @ r"
    by (auto simp: prefix_def)
  show ?thesis
  proof (cases "\<forall>c\<in>set (utf8_chars a). c \<noteq> 0")
    case True
    then have "takeWhile (\<lambda>c. c \<noteq> 0) (utf8_chars a @ [0x25]) = utf8_chars a @ [0x25]"
      by (simp add: takeWhile_append2)
    moreover from True have "takeWhile (\<lambda>c. c \<noteq> 0) (utf8_chars a @ r)
        = utf8_chars a @ takeWhile (\<lambda>c. c \<noteq> 0) r"
      by (simp add: takeWhile_append2)
    ultimately show ?thesis
      by (simp add: sql_like_def sql_text_def utf8_chars_percent n patternCompare_prefix)
  next
    case False
    then obtain c where "c \<in> set (utf8_chars a)" "\<not> c \<noteq> 0" by blast
    then have "takeWhile (\<lambda>c. c \<noteq> 0) (utf8_chars a @ x) = takeWhile (\<lambda>c. c \<noteq> 0) (utf8_chars a)"
      for x
      by (rule takeWhile_append1)
    then show ?thesis
      by (simp add: sql_like_def sql_text_def utf8_chars_percent n patternCompare_same)
  qed
qed

lemma utf8_chars_ascii:
  "\<forall>c\<in>set a. byte_of c < 0x80 \<Longrightarrow> utf8_chars (a @ r) = map (\<lambda>c. of_nat (byte_of c)) a @ utf8_chars r"
  by (induction a) simp_all

lemma ascii_prefix_chars:
  assumes "\<forall>c\<in>set a. byte_of c < 0x80" and "prefix a n"
  shows "prefix (utf8_chars a) (utf8_chars n)"
proof -
  from assms(2) obtain r where n: "n = a @ r" by (auto simp: prefix_def)
  have "utf8_chars a = map (\<lambda>c. of_nat (byte_of c)) a"
    using utf8_chars_ascii [OF assms(1), of "[]"] by simp
  then show ?thesis
    by (simp add: n utf8_chars_ascii [OF assms(1)])
qed

text \<open>
  C6, amended. Every pair the alias query yields for an owner joins two rows of
  \<open>member_bounds\<close> of that owner with distinct ids, the first row's bounds overlap the
  second row's extent (its offset, plus the size of its member, plus 1 when the member's
  bit_size is not 0), and neither name is a prefix of the other as a sequence of
  characters, the names read as \<open>LIKE\<close> reads UTF-8; in particular a name of ASCII bytes
  only is no string prefix of the other name.
\<close>

theorem alias_pairs_overlap:
  assumes "(subobj, alias) \<in> set (find_imprecise_alias_query member_bounds struct_member owner)"
  shows "\<exists>mb alb alm. mb \<in> set member_bounds \<and> alb \<in> set member_bounds
      \<and> alm \<in> set struct_member
      \<and> mbt_id mb = subobj \<and> mbt_id alb = alias \<and> smt_id alm = mbt_member alb
      \<and> mbt_owner mb = owner \<and> mbt_owner alb = owner \<and> subobj \<noteq> alias
      \<and> max (mbt_base mb) (mbt_offset alb)
          < min (mbt_top mb)
              (mbt_offset alb + smt_size alm
                + (case smt_bit_size alm of None \<Rightarrow> 0 | Some v \<Rightarrow> if v \<noteq> 0 then 1 else 0))
      \<and> \<not> prefix (utf8_chars (mbt_name mb)) (utf8_chars (mbt_name alb))
      \<and> \<not> prefix (utf8_chars (mbt_name alb)) (utf8_chars (mbt_name mb))
      \<and> ((\<forall>c\<in>set (mbt_name mb). byte_of c < 0x80) \<longrightarrow> \<not> prefix (mbt_name mb) (mbt_name alb))
      \<and> ((\<forall>c\<in>set (mbt_name alb). byte_of c < 0x80) \<longrightarrow> \<not> prefix (mbt_name alb) (mbt_name mb))"
proof -
  from assms obtain mb alb alm where rows: "mb \<in> set member_bounds" "alb \<in> set member_bounds"
      "alm \<in> set struct_member"
    and ids: "mbt_id mb = subobj" "mbt_id alb = alias" "mbt_member alb = smt_id alm"
    and own: "mbt_owner mb = mbt_owner alb" "mbt_owner mb = owner" "mbt_id mb \<noteq> mbt_id alb"
    and ovl: "max (mbt_offset alb) (mbt_base mb)
          < min (mbt_offset alb + smt_size alm + IIF_bit_size (smt_bit_size alm)) (mbt_top mb)"
    and like: "\<not> sql_like (mbt_name alb @ ''%'') (mbt_name mb)"
        "\<not> sql_like (mbt_name mb @ ''%'') (mbt_name alb)"
    by (auto simp: find_imprecise_alias_query_def alias_bounds_def impl_def)
  have np: "\<not> prefix (utf8_chars (mbt_name mb)) (utf8_chars (mbt_name alb))"
      "\<not> prefix (utf8_chars (mbt_name alb)) (utf8_chars (mbt_name mb))"
    using like chars_prefix_sql_like by blast+
  have ap: "(\<forall>c\<in>set (mbt_name mb). byte_of c < 0x80) \<longrightarrow> \<not> prefix (mbt_name mb) (mbt_name alb)"
      "(\<forall>c\<in>set (mbt_name alb). byte_of c < 0x80) \<longrightarrow> \<not> prefix (mbt_name alb) (mbt_name mb)"
    using np ascii_prefix_chars by blast+
  have ovl': "max (mbt_base mb) (mbt_offset alb)
          < min (mbt_top mb)
              (mbt_offset alb + smt_size alm
                + (case smt_bit_size alm of None \<Rightarrow> 0 | Some v \<Rightarrow> if v \<noteq> 0 then 1 else 0))"
    using ovl by (simp add: IIF_bit_size_def max.commute min.commute)
  show ?thesis
    using rows ids own ovl' np ap by (intro exI [of _ mb] exI [of _ alb] exI [of _ alm]) auto
qed

theorem alias_pairs_overlap_witness:
  "(1, 2) \<in> set (find_imprecise_alias_query V_member_bounds V_struct_member 1)
   \<and> (\<exists>mb alb alm. mb \<in> set V_member_bounds \<and> alb \<in> set V_member_bounds
      \<and> alm \<in> set V_struct_member
      \<and> mbt_id mb = 1 \<and> mbt_id alb = 2 \<and> smt_id alm = mbt_member alb
      \<and> mbt_owner mb = 1 \<and> mbt_owner alb = 1 \<and> (1::int) \<noteq> 2
      \<and> max (mbt_base mb) (mbt_offset alb)
          < min (mbt_top mb)
              (mbt_offset alb + smt_size alm
                + (case smt_bit_size alm of None \<Rightarrow> 0 | Some v \<Rightarrow> if v \<noteq> 0 then 1 else 0))
      \<and> \<not> prefix (utf8_chars (mbt_name mb)) (utf8_chars (mbt_name alb))
      \<and> \<not> prefix (utf8_chars (mbt_name alb)) (utf8_chars (mbt_name mb))
      \<and> (\<forall>c\<in>set (mbt_name mb). byte_of c < 0x80) \<and> \<not> prefix (mbt_name mb) (mbt_name alb)
      \<and> (\<forall>c\<in>set (mbt_name alb). byte_of c < 0x80) \<and> \<not> prefix (mbt_name alb) (mbt_name mb))"
proof -
  have pair: "(1, 2) \<in> set (find_imprecise_alias_query V_member_bounds V_struct_member 1)"
    by (simp add: query_defs table_defs)
  have ascii: "\<forall>r\<in>set V_member_bounds. \<forall>c\<in>set (mbt_name r). byte_of c < 0x80"
    by (simp add: table_defs byte_of_def)
  from alias_pairs_overlap [OF pair] obtain mb alb alm where
    rows: "mb \<in> set V_member_bounds" "alb \<in> set V_member_bounds" "alm \<in> set V_struct_member"
    and ids: "mbt_id mb = 1" "mbt_id alb = 2" "smt_id alm = mbt_member alb"
      "mbt_owner mb = 1" "mbt_owner alb = 1"
    and ovl: "max (mbt_base mb) (mbt_offset alb)
          < min (mbt_top mb)
              (mbt_offset alb + smt_size alm
                + (case smt_bit_size alm of None \<Rightarrow> 0 | Some v \<Rightarrow> if v \<noteq> 0 then 1 else 0))"
    and np: "\<not> prefix (utf8_chars (mbt_name mb)) (utf8_chars (mbt_name alb))"
      "\<not> prefix (utf8_chars (mbt_name alb)) (utf8_chars (mbt_name mb))"
    and ap: "(\<forall>c\<in>set (mbt_name mb). byte_of c < 0x80) \<longrightarrow> \<not> prefix (mbt_name mb) (mbt_name alb)"
      "(\<forall>c\<in>set (mbt_name alb). byte_of c < 0x80) \<longrightarrow> \<not> prefix (mbt_name alb) (mbt_name mb)"
    by blast
  from ascii rows have a: "\<forall>c\<in>set (mbt_name mb). byte_of c < 0x80"
      "\<forall>c\<in>set (mbt_name alb). byte_of c < 0x80"
    by blast+
  with ap have p: "\<not> prefix (mbt_name mb) (mbt_name alb)" "\<not> prefix (mbt_name alb) (mbt_name mb)"
    by blast+
  have "\<exists>mb alb alm. mb \<in> set V_member_bounds \<and> alb \<in> set V_member_bounds
      \<and> alm \<in> set V_struct_member
      \<and> mbt_id mb = 1 \<and> mbt_id alb = 2 \<and> smt_id alm = mbt_member alb
      \<and> mbt_owner mb = 1 \<and> mbt_owner alb = 1 \<and> (1::int) \<noteq> 2
      \<and> max (mbt_base mb) (mbt_offset alb)
          < min (mbt_top mb)
              (mbt_offset alb + smt_size alm
                + (case smt_bit_size alm of None \<Rightarrow> 0 | Some v \<Rightarrow> if v \<noteq> 0 then 1 else 0))
      \<and> \<not> prefix (utf8_chars (mbt_name mb)) (utf8_chars (mbt_name alb))
      \<and> \<not> prefix (utf8_chars (mbt_name alb)) (utf8_chars (mbt_name mb))
      \<and> (\<forall>c\<in>set (mbt_name mb). byte_of c < 0x80) \<and> \<not> prefix (mbt_name mb) (mbt_name alb)
      \<and> (\<forall>c\<in>set (mbt_name alb). byte_of c < 0x80) \<and> \<not> prefix (mbt_name alb) (mbt_name mb)"
    using rows ids ovl np a p
    by (intro exI [of _ mb] exI [of _ alb] exI [of _ alm]) simp
  with pair show ?thesis by simp
qed

text \<open>
  C6 as stated fails for a name that stops inside a multi-byte character of the other:
  \<open>LIKE\<close> reads the lone byte \<open>0xC3\<close> and the pair \<open>0xC3 0xA9\<close> as two different
  characters, matches neither way, and the pair is selected although the first name is a
  string prefix of the second.
\<close>

theorem alias_pairs_counterexample:
  "(1, 2) \<in> set (find_imprecise_alias_query cut_member_bounds cut_struct_member 1)
   \<and> mbt_id (cut_member_bounds ! 0) = 1 \<and> mbt_id (cut_member_bounds ! 1) = 2
   \<and> mbt_name (cut_member_bounds ! 0) = ''S::'' @ [CHR 0xC3]
   \<and> mbt_name (cut_member_bounds ! 1) = ''S::'' @ [CHR 0xC3, CHR 0xA9]
   \<and> prefix (mbt_name (cut_member_bounds ! 0)) (mbt_name (cut_member_bounds ! 1))"
  by (simp add: query_defs table_defs)

section \<open>Properties of the visitors\<close>

lemma log_as_result:
  "log_as lvl txt st
     = st\<lparr>logging := (snd (Logger_Get (fst (logging st))),
            Logger_Emit (fst (Logger_Get (fst (logging st))))
              \<lparr>level = lvl, message = txt\<rparr> (snd (logging st)))\<rparr>"
  by (simp add: log_as_def LOG_result)

text \<open>
  The error "Unsupported" leaves a visit only from a DIE that \<open>unsupported_in\<close> finds.
\<close>

lemma unsupported_only:
  "VisitCommon cfg die kind st = Inl (RuntimeError ''Unsupported'', st') \<Longrightarrow> unsupported_in die"
  "VisitChildren cfg ch row i acc st = Inl (RuntimeError ''Unsupported'', st')
     \<Longrightarrow> unsupported_in_children ch"
  "VisitMember cfg c ti row i st = Inl (RuntimeError ''Unsupported'', st') \<Longrightarrow> unsupported_in_type ti"
  "VisitMemberType cfg ti member st = Inl (RuntimeError ''Unsupported'', st')
     \<Longrightarrow> unsupported_in_type ti"
proof (induction cfg die kind st and cfg ch row i acc st and cfg c ti row i st
    and cfg ti member st arbitrary: st' and st' and st' and st'
    rule: VisitCommon_VisitChildren_VisitMember_VisitMemberType.induct)
  case (1 cfg a ch kind st)
  then show ?case
    by (auto simp: Let_def GetStructTypeId_def
        split: if_splits option.splits sum.splits prod.splits)
next
  case (2 cfg row member_index acc st)
  then show ?case by simp
next
  case (3 cfg child ti rest row member_index acc st)
  then show ?case
    by (auto split: if_splits sum.splits prod.splits)
next
  case (4 cfg a ch ti row member_index st)
  then show ?case
    by (auto simp: Let_def GetStructMemberId_def
        split: if_splits option.splits sum.splits prod.splits)
next
  case (5 cfg type_name byte_size member_flags array_items tdie member st)
  then show ?case
    by (auto simp: Let_def split: if_splits option.splits sum.splits prod.splits)
qed

text \<open>
  C3 (the code does not do this). With the legacy \<open>DW_AT_bit_offset\<close> and no
  \<open>DW_AT_data_bit_offset\<close> the base position is taken as 0, not as
  \<open>DW_AT_data_member_location\<close> times 8: for the bit-field \<open>flag\<close> of
  \<open>struct S { int x; unsigned flag : 3; }\<close>, in the unit at byte 4, \<open>VisitMember\<close>
  stores byte_offset 0 on a little-endian and on a big-endian target, where the claim's
  formula gives bit position 32 and byte_offset 4.
\<close>

theorem legacy_bit_offset_drops_location:
  "map_sum fst (\<lambda>(m, st). (sm_name m, sm_byte_offset m, sm_bit_offset m))
     (VisitMember (plain_config True) (flag_die 29) (base_type ''unsigned int'' 4) S_row 1
        fresh_scraper)
     = Inr (''flag'', 0, Some 0)
   \<and> map_sum fst (\<lambda>(m, st). (sm_name m, sm_byte_offset m, sm_bit_offset m))
     (VisitMember (plain_config False) (flag_die 0) (base_type ''unsigned int'' 4) S_row 1
        fresh_scraper)
     = Inr (''flag'', 0, Some 0)
   \<and> (4 * 8 + 4 * 8 - (29 + 3) :: u64) div 8 = 4
   \<and> (4 * 8 + 0 :: u64) div 8 = 4"
  by (simp add: die_defs flag_defs visit_defs example_defs)

theorem legacy_bit_offset_drops_location_witness:
  "map_sum fst (\<lambda>(m, st). (sm_name m, sm_byte_offset m, sm_bit_offset m))
     (VisitMember (plain_config True) (flag_die 29) (base_type ''unsigned int'' 4) S_row 1
        fresh_scraper)
     = Inr (''flag'', 0, Some 0)"
  using legacy_bit_offset_drops_location by blast

text \<open>
  C4 (the code does not do this). A member whose \<open>DW_AT_bit_size\<close> is 0 reaches the
  flattening with \<open>bit_size\<close> present and 0. The claim's required_length for it is its
  byte_size, 4, and the alias view adds nothing for it either (\<open>IIF(0, 1, 0)\<close> is 0); the
  flattening asks the encoder for 5 bytes and stores the row with top minus base 5 as
  precise.
\<close>

theorem zero_bit_size_adds_byte:
  "map_sum fst (\<lambda>(m, st). (sm_name m, sm_byte_size m, sm_bit_size m, sm_byte_offset m))
     (VisitMember (plain_config True) zero_width_die (base_type ''unsigned int'' 4) Bits_row 1
        fresh_scraper)
     = Inr (''z'', 4, Some 0, 4)
   \<and> (sm_name (members Bits_entry ! 1), sm_byte_size (members Bits_entry ! 1),
       sm_bit_size (members Bits_entry ! 1), sm_byte_offset (members Bits_entry ! 1))
       = (''z'', 4, Some 0, 4)
   \<and> sm_byte_size (members Bits_entry ! 1)
       + (case sm_bit_size (members Bits_entry ! 1) of
            Some b \<Rightarrow> if 0 < b then 1 else 0 | None \<Rightarrow> 0) = 4
   \<and> IIF_bit_size (Some 0) = 0
   \<and> FindSubobjectCapabilities 0 coarse_source [(6, Bits_entry)] Bits_entry
       = Some (Inr (Bits_entry\<lparr>flattened_layout :=
            map (\<lambda>m. mb_row coarse_source 6 m 0 ''Bits'') (members Bits_entry)\<rparr>))
   \<and> FindRepresentableRange coarse_source 4 5 = (4, 5)
   \<and> mb_offset (mb_row coarse_source 6 (members Bits_entry ! 1) 0 ''Bits'') = 4
   \<and> mb_base (mb_row coarse_source 6 (members Bits_entry ! 1) 0 ''Bits'') = 4
   \<and> mb_top (mb_row coarse_source 6 (members Bits_entry ! 1) 0 ''Bits'') = 9
   \<and> mb_is_imprecise (mb_row coarse_source 6 (members Bits_entry ! 1) 0 ''Bits'') = False"
  by (simp add: die_defs flag_defs visit_defs example_defs flatten_defs IIF_bit_size_def)

theorem zero_bit_size_adds_byte_witness:
  "mb_top (mb_row coarse_source 6 (members Bits_entry ! 1) 0 ''Bits'')
     - mb_base (mb_row coarse_source 6 (members Bits_entry ! 1) 0 ''Bits'') = 5
   \<and> sm_bit_size (members Bits_entry ! 1) = Some 0
   \<and> sm_byte_size (members Bits_entry ! 1) = 4"
  using zero_bit_size_adds_byte by simp

text \<open>
  C8, amended. \<open>VisitCommon\<close> returns no id and leaves the state as it is when
  \<open>DW_AT_declaration\<close> is present, also when \<open>DW_AT_specification\<close> is present with it.
  Without \<open>DW_AT_declaration\<close> and with \<open>DW_AT_specification\<close> it logs an error and
  raises the fatal error "Unsupported". With neither, and \<open>DW_AT_byte_size\<close> missing, it
  returns no id and its only effect is the warning: one call of \<open>Logger::Emit\<close> and
  nothing else in the state. It raises the fatal error "Unsupported" only when
  \<open>DW_AT_specification\<close> is present without \<open>DW_AT_declaration\<close> on the DIE itself or on a
  record DIE that the visit reaches from it through the types of members.
\<close>

theorem VisitCommon_guards:
  "(DW_AT_declaration a \<longrightarrow> VisitCommon cfg (DwarfDie a ch) kind st = Inr (None, st))
   \<and> (\<not> DW_AT_declaration a \<and> DW_AT_specification a \<longrightarrow>
        VisitCommon cfg (DwarfDie a ch) kind st
          = Inl (RuntimeError ''Unsupported'',
                 log_as kError ''DW_AT_specification unsupported'' st))
   \<and> (\<not> DW_AT_declaration a \<and> \<not> DW_AT_specification a \<and> DW_AT_byte_size a = None \<longrightarrow>
        VisitCommon cfg (DwarfDie a ch) kind st
          = Inr (None, log_as kWarn
                   (''Missing struct size for DIE @ 0x'' @ show_hex (unat (getOffset a))) st))
   \<and> ((\<exists>st'. VisitCommon cfg (DwarfDie a ch) kind st = Inl (RuntimeError ''Unsupported'', st'))
        \<longrightarrow> unsupported_in (DwarfDie a ch))
   \<and> log_as lvl txt st
       = st\<lparr>logging := (snd (Logger_Get (fst (logging st))),
              Logger_Emit (fst (Logger_Get (fst (logging st))))
                \<lparr>level = lvl, message = txt\<rparr> (snd (logging st)))\<rparr>"
proof -
  have h4: "unsupported_in (DwarfDie a ch)"
    if "\<exists>st'. VisitCommon cfg (DwarfDie a ch) kind st = Inl (RuntimeError ''Unsupported'', st')"
    using that unsupported_only(1) by blast
  have h123: "(DW_AT_declaration a \<longrightarrow> VisitCommon cfg (DwarfDie a ch) kind st = Inr (None, st))
   \<and> (\<not> DW_AT_declaration a \<and> DW_AT_specification a \<longrightarrow>
        VisitCommon cfg (DwarfDie a ch) kind st
          = Inl (RuntimeError ''Unsupported'',
                 log_as kError ''DW_AT_specification unsupported'' st))
   \<and> (\<not> DW_AT_declaration a \<and> \<not> DW_AT_specification a \<and> DW_AT_byte_size a = None \<longrightarrow>
        VisitCommon cfg (DwarfDie a ch) kind st
          = Inr (None, log_as kWarn
                   (''Missing struct size for DIE @ 0x'' @ show_hex (unat (getOffset a))) st))"
    by simp
  have h5: "log_as lvl txt st
       = st\<lparr>logging := (snd (Logger_Get (fst (logging st))),
              Logger_Emit (fst (Logger_Get (fst (logging st))))
                \<lparr>level = lvl, message = txt\<rparr> (snd (logging st)))\<rparr>"
    by (rule log_as_result)
  show ?thesis
    using h4 h123 h5 by blast
qed

theorem VisitCommon_guards_witness:
  "DW_AT_declaration (attrs declared_specified_die)
   \<and> VisitCommon (plain_config True) declared_specified_die kTypeIsStruct fresh_scraper
       = Inr (None, fresh_scraper)
   \<and> DW_AT_declaration (attrs specified_die) = False
   \<and> DW_AT_specification (attrs specified_die)
   \<and> VisitCommon (plain_config True) specified_die kTypeIsStruct fresh_scraper
       = Inl (RuntimeError ''Unsupported'',
              log_as kError ''DW_AT_specification unsupported'' fresh_scraper)
   \<and> DW_AT_declaration (attrs sizeless_die) = False
   \<and> DW_AT_specification (attrs sizeless_die) = False
   \<and> DW_AT_byte_size (attrs sizeless_die) = None
   \<and> VisitCommon (plain_config True) sizeless_die kTypeIsStruct fresh_scraper
       = Inr (None, log_as kWarn ''Missing struct size for DIE @ 0x2a'' fresh_scraper)
   \<and> log_as kWarn ''Missing struct size for DIE @ 0x2a'' fresh_scraper
       = fresh_scraper\<lparr>logging :=
           (Some \<lparr>Logger_level = kInfo, Logger_sinks = []\<rparr>,
            [EmitCall \<lparr>level = kWarn, message = ''Missing struct size for DIE @ 0x2a''\<rparr>])\<rparr>
   \<and> (\<exists>st'. VisitCommon (plain_config True) holder_die kTypeIsStruct fresh_scraper
          = Inl (RuntimeError ''Unsupported'', st'))
   \<and> unsupported_in holder_die
   \<and> unsupported_in Outer_die = False
   \<and> isl (VisitCommon (plain_config True) Outer_die kTypeIsStruct fresh_scraper) = False"
proof -
  have shape: "DwarfDie (attrs d) (children d) = d" for d
    by simp
  have hex: "show_hex 42 = ''2a''"
    by (simp add: show_hex.simps)
  have raised: "\<exists>st'. VisitCommon (plain_config True) holder_die kTypeIsStruct fresh_scraper
          = Inl (RuntimeError ''Unsupported'', st')"
    by (simp add: die_defs flag_defs visit_defs example_defs)
  have found: "unsupported_in holder_die"
    using VisitCommon_guards [of "attrs holder_die" "plain_config True" "children holder_die"
        kTypeIsStruct fresh_scraper kWarn "[]"] raised
    unfolding shape by blast
  have quiet: "unsupported_in Outer_die = False
      \<and> isl (VisitCommon (plain_config True) Outer_die kTypeIsStruct fresh_scraper) = False"
    by (simp add: die_defs flag_defs visit_defs example_defs)
  show ?thesis
    using VisitCommon_guards [of "attrs declared_specified_die" "plain_config True"
        "children declared_specified_die" kTypeIsStruct
        fresh_scraper kWarn "''Missing struct size for DIE @ 0x2a''"]
      VisitCommon_guards [of "attrs specified_die" "plain_config True"
        "children specified_die" kTypeIsStruct fresh_scraper kWarn "[]"]
      VisitCommon_guards [of "attrs sizeless_die" "plain_config True"
        "children sizeless_die" kTypeIsStruct fresh_scraper kWarn "[]"]
      raised found quiet
    unfolding shape
    by (simp add: die_defs flag_defs visit_defs example_defs hex LOG_result
        Logger_Get_def Logger_ctor_def Logger_Emit_def)
qed

text \<open>
  C8 as stated fails both ways: a DIE with \<open>DW_AT_declaration\<close> and
  \<open>DW_AT_specification\<close> is skipped without an error; a DIE without
  \<open>DW_AT_specification\<close> raises the fatal error of a member's record type that has it;
  and a DIE with no \<open>DW_AT_specification\<close> anywhere raises the error of
  \<open>std::filesystem::relative\<close> when that fails.
\<close>

theorem VisitCommon_counterexample:
  "DW_AT_specification (attrs declared_specified_die)
   \<and> VisitCommon (plain_config True) declared_specified_die kTypeIsStruct fresh_scraper
       = Inr (None, fresh_scraper)
   \<and> DW_AT_specification (attrs holder_die) = False
   \<and> map_sum fst fst (VisitCommon (plain_config True) holder_die kTypeIsStruct fresh_scraper)
       = Inl (RuntimeError ''Unsupported'')
   \<and> unsupported_in Inner_die = False
   \<and> VisitCommon failing_config Inner_die kTypeIsStruct fresh_scraper
       = Inl (FilesystemError, fresh_scraper)"
  by (simp add: die_defs flag_defs visit_defs example_defs)

end
